theory Spec2Isabelle
  imports Complex_Main "HOL-Library.Word"
begin

section \<open>Values, errors and configuration\<close>

text \<open>
  The program is a Python pipeline (\<^verbatim>\<open>backend.py\<close>, \<^verbatim>\<open>app.py\<close>) over four remote
  inference services. Python text is modelled as \<^typ>\<open>string\<close>, each character read as a
  code point in the range U+0000 .. U+00FF; raw bytes are 8-bit words. Exceptions are values
  of the type \<open>error\<close>, and a function that may raise returns \<open>error + 'a\<close>.
\<close>

type_synonym byte = "8 word"

text \<open>
  Dynamically typed values: what a JSON body decodes to, what the stage functions return
  (dictionaries), the \<^verbatim>\<open>Payload\<close> wrapper object of \<^verbatim>\<open>app.py\<close> (its \<^verbatim>\<open>text\<close> and
  \<^verbatim>\<open>prompt\<close> attributes hold the same wrapped value) and the coroutine object that a call
  of an \<^verbatim>\<open>async def\<close> function yields when it is not awaited.
\<close>

datatype pyval =
    NoneV
  | BoolV bool
  | IntV int
  | StrV string
  | ListV "pyval list"
  | DictV "(string \<times> pyval) list"
  | PayloadV pyval
  | CoroutineV

datatype error =
    RuntimeError string
  | HTTPException int string
  | TypeError
  | AttributeError
  | IndexError
  | KeyError
  | JSONDecodeError
  | OSError
  | StreamlitSecretNotFoundError
  | APIStatusError int string

text \<open>Python truthiness, as used by \<^verbatim>\<open>if x\<close> and \<^verbatim>\<open>if not x\<close>.\<close>

fun truthy :: "pyval \<Rightarrow> bool" where
  "truthy NoneV = False"
| "truthy (BoolV b) = b"
| "truthy (IntV i) = (i \<noteq> 0)"
| "truthy (StrV s) = (s \<noteq> [])"
| "truthy (ListV xs) = (xs \<noteq> [])"
| "truthy (DictV kvs) = (kvs \<noteq> [])"
| "truthy (PayloadV v) = True"
| "truthy CoroutineV = True"

text \<open>\<^verbatim>\<open>d.get(key, default)\<close> when \<^verbatim>\<open>isinstance(d, dict)\<close>.\<close>

definition dict_get :: "(string \<times> pyval) list \<Rightarrow> string \<Rightarrow> pyval \<Rightarrow> pyval" where
  "dict_get kvs k d = (case map_of kvs k of None \<Rightarrow> d | Some v \<Rightarrow> v)"

text \<open>
  The two configuration sources of \<^verbatim>\<open>get_secret\<close>: the Streamlit secret store
  (consulted only when the \<^verbatim>\<open>streamlit\<close> import succeeded) and the process environment.
  The store is read from a secrets file; when there is none (\<open>None\<close>), every access to
  \<^verbatim>\<open>st.secrets\<close>, the test \<^verbatim>\<open>name in st.secrets\<close> included, raises.
\<close>

record config =
  use_streamlit_secrets :: bool
  secrets :: "(string \<rightharpoonup> string) option"
  environ :: "string \<rightharpoonup> string"

definition missing_key_message :: "string \<Rightarrow> string" where
  "missing_key_message name =
     ''Cl'' @ [CHR 0xE9] @ '' API '' @ [CHR 0x27] @ name @ [CHR 0x27] @ '' manquante.''"

text \<open>The last four lines of \<^verbatim>\<open>get_secret\<close>: the environment, where an empty value counts as none.\<close>

definition lookup_environ :: "'a config_scheme \<Rightarrow> string \<Rightarrow> error + string" where
  "lookup_environ cfg name =
     (case environ cfg name of
        None \<Rightarrow> Inl (RuntimeError (missing_key_message name))
      | Some v \<Rightarrow>
          if v = [] then Inl (RuntimeError (missing_key_message name))
          else Inr v)"

definition get_secret :: "'a config_scheme \<Rightarrow> string \<Rightarrow> error + string" where
  "get_secret cfg name =
     (if use_streamlit_secrets cfg then
        (case secrets cfg of
           None \<Rightarrow> Inl StreamlitSecretNotFoundError
         | Some store \<Rightarrow>
             (case store name of
                Some v \<Rightarrow> Inr v
              | None \<Rightarrow> lookup_environ cfg name))
      else lookup_environ cfg name)"

text \<open>The store lookup finds nothing: the store is not consulted, or it is read and lacks the name.\<close>

definition not_in_store :: "'a config_scheme \<Rightarrow> string \<Rightarrow> bool" where
  "not_in_store cfg name =
     (if use_streamlit_secrets cfg
      then (case secrets cfg of None \<Rightarrow> False | Some store \<Rightarrow> store name = None)
      else True)"

section \<open>Text and base64\<close>

text \<open>
  \<^verbatim>\<open>str.strip()\<close> removes the leading and trailing white space; below U+0100 the white
  space of Python is U+0009 .. U+000D, U+001C .. U+0020, U+0085 and U+00A0.
  \<^verbatim>\<open>str.lower()\<close> maps A .. Z and the capital letters U+00C0 .. U+00DE (the
  multiplication sign U+00D7 apart) to the letter 32 code points higher.
\<close>

definition is_space :: "char \<Rightarrow> bool" where
  "is_space c =
     (let n = (of_char c :: nat)
      in (9 \<le> n \<and> n \<le> 13) \<or> (28 \<le> n \<and> n \<le> 32) \<or> n = 133 \<or> n = 160)"

definition py_strip :: "string \<Rightarrow> string" where
  "py_strip s = rev (dropWhile is_space (rev (dropWhile is_space s)))"

definition lower_char :: "char \<Rightarrow> char" where
  "lower_char c =
     (let n = (of_char c :: nat)
      in if (65 \<le> n \<and> n \<le> 90) \<or> (192 \<le> n \<and> n \<le> 222 \<and> n \<noteq> 215)
         then char_of (n + 32) else c)"

definition py_lower :: "string \<Rightarrow> string" where
  "py_lower s = map lower_char s"

text \<open>\<^verbatim>\<open>s.split(sep)[-1]\<close>: the part of \<open>s\<close> after the last separator.\<close>

definition last_part :: "char \<Rightarrow> string \<Rightarrow> string" where
  "last_part sep s = rev (takeWhile (\<lambda>c. c \<noteq> sep) (rev s))"

text \<open>
  \<^verbatim>\<open>base64.b64encode\<close> and \<^verbatim>\<open>base64.b64decode\<close> belong to the Python library; they
  are modelled as the base64 encoding of RFC 4648 with the standard alphabet and padding.
\<close>

definition b64_alphabet :: string where
  "b64_alphabet = ''ABCDEFGHIJKLMNOPQRSTUVWXYZabcdefghijklmnopqrstuvwxyz0123456789+/''"

definition b64_char :: "nat \<Rightarrow> char" where
  "b64_char i = b64_alphabet ! i"

fun index_of :: "'a \<Rightarrow> 'a list \<Rightarrow> nat option" where
  "index_of c [] = None"
| "index_of c (x # xs) = (if c = x then Some 0 else map_option Suc (index_of c xs))"

definition b64_index :: "char \<Rightarrow> nat option" where
  "b64_index c = index_of c b64_alphabet"

fun b64encode :: "byte list \<Rightarrow> string" where
  "b64encode [] = []"
| "b64encode [a] =
     [b64_char (unat a div 4), b64_char (unat a mod 4 * 16), CHR ''='', CHR ''='']"
| "b64encode [a, b] =
     [b64_char (unat a div 4), b64_char (unat a mod 4 * 16 + unat b div 16),
      b64_char (unat b mod 16 * 4), CHR ''='']"
| "b64encode (a # b # c # rest) =
     [b64_char (unat a div 4), b64_char (unat a mod 4 * 16 + unat b div 16),
      b64_char (unat b mod 16 * 4 + unat c div 64), b64_char (unat c mod 64)]
     @ b64encode rest"

fun b64decode :: "string \<Rightarrow> byte list option" where
  "b64decode [] = Some []"
| "b64decode (c1 # c2 # c3 # c4 # rest) =
     (if rest = [] \<and> c3 = CHR ''='' \<and> c4 = CHR ''='' then
        (case (b64_index c1, b64_index c2) of
           (Some i1, Some i2) \<Rightarrow> Some [of_nat (i1 * 4 + i2 div 16)]
         | _ \<Rightarrow> None)
      else if rest = [] \<and> c4 = CHR ''='' then
        (case (b64_index c1, b64_index c2, b64_index c3) of
           (Some i1, Some i2, Some i3) \<Rightarrow>
             Some [of_nat (i1 * 4 + i2 div 16), of_nat (i2 mod 16 * 16 + i3 div 4)]
         | _ \<Rightarrow> None)
      else
        (case (b64_index c1, b64_index c2, b64_index c3, b64_index c4) of
           (Some i1, Some i2, Some i3, Some i4) \<Rightarrow>
             (case b64decode rest of
                None \<Rightarrow> None
              | Some bs \<Rightarrow>
                  Some (of_nat (i1 * 4 + i2 div 16) # of_nat (i2 mod 16 * 16 + i3 div 4)
                        # of_nat (i3 mod 4 * 64 + i4) # bs))
         | _ \<Rightarrow> None))"
| "b64decode _ = None"

definition data_uri_prefix :: string where
  "data_uri_prefix = ''data:image/png;base64,''"

text \<open>The payload of a data URI is what follows its first comma.\<close>

definition data_uri_payload :: "string \<Rightarrow> string" where
  "data_uri_payload uri = drop 1 (dropWhile (\<lambda>c. c \<noteq> CHR '','') uri)"

section \<open>The outside world\<close>

text \<open>
  An upstream HTTP response as the code reads it: \<^verbatim>\<open>response.status_code\<close>,
  \<^verbatim>\<open>response.text\<close>, \<^verbatim>\<open>response.content\<close> and \<^verbatim>\<open>response.json()\<close>, which raises
  when the body is not JSON (\<open>None\<close>).
\<close>

record http_response =
  status_code :: int
  resp_text :: string
  resp_content :: "byte list"
  resp_json :: "pyval option"

text \<open>An uploaded file: its name, its declared media type and what \<^verbatim>\<open>read()\<close> returns.\<close>

record upload_file =
  filename :: string
  content_type :: string
  file_data :: "byte list"

record stt_request =
  stt_url :: string
  stt_authorization :: string
  stt_file :: "string \<times> byte list \<times> string"
  stt_model :: string

record chat_request =
  chat_api_key :: string
  chat_model :: string
  chat_messages :: "(string \<times> string) list"
  max_tokens :: int
  temperature :: real

record image_request =
  img_url :: string
  img_api_key :: string
  img_prompt :: pyval

datatype call = STT stt_request | Chat chat_request | Image image_request

text \<open>
  The environment of one run: the configuration sources, the random part of the name that
  \<^verbatim>\<open>tempfile\<close> picks for the n-th temporary file, the three upstream services, and the
  paths on which \<^verbatim>\<open>os.remove\<close> fails (a locked file, say). Each service answers a
  request with an HTTP response; the completion service, which the SDK client may ask again,
  answers the n-th attempt of a call. A request that gets no response at all (a timeout, a
  refused connection) is not modelled.
\<close>

record env = config +
  tmp_name :: "nat \<Rightarrow> string"
  stt :: "stt_request \<Rightarrow> http_response"
  chat :: "nat \<Rightarrow> chat_request \<Rightarrow> http_response"
  clipdrop :: "image_request \<Rightarrow> http_response"
  remove_fails :: "string \<Rightarrow> bool"

datatype ui_event =
    Warn_no_transcription
  | Show_transcription pyval
  | Show_emotion string
  | Show_prompt pyval
  | Warn_no_prompt
  | Show_image pyval
  | Warn_no_image
  | Show_error error
  | Warn_cannot_remove error

text \<open>
  What a run changes: the files on disk, the number of temporary files created so far, the
  open handles of \<^verbatim>\<open>DummyUploadFile\<close>, the requests sent upstream (in order) and what the
  user interface has displayed.
\<close>

record state =
  fs :: "string \<rightharpoonup> byte list"
  tmp_count :: nat
  handles :: "string list"
  calls :: "call list"
  ui :: "ui_event list"

text \<open>
  \<^verbatim>\<open>with tempfile.NamedTemporaryFile(delete=False, suffix=...) as tmp: tmp.write(data)\<close>:
  a new file that outlives the \<^verbatim>\<open>with\<close> block.
\<close>

definition NamedTemporaryFile :: "env \<Rightarrow> string \<Rightarrow> byte list \<Rightarrow> state \<Rightarrow> string \<times> state" where
  "NamedTemporaryFile e suffix data s =
     (let path = ''/tmp/tmp'' @ tmp_name e (tmp_count s) @ suffix
      in (path, s\<lparr>fs := (fs s)(path \<mapsto> data), tmp_count := Suc (tmp_count s)\<rparr>))"

definition os_remove :: "env \<Rightarrow> string \<Rightarrow> state \<Rightarrow> (error + unit) \<times> state" where
  "os_remove e path s =
     (if fs s path = None \<or> remove_fails e path then (Inl OSError, s)
      else (Inr (), s\<lparr>fs := (fs s)(path := None)\<rparr>))"

definition record_call :: "call \<Rightarrow> state \<Rightarrow> state" where
  "record_call c s = s\<lparr>calls := calls s @ [c]\<rparr>"

definition display :: "ui_event \<Rightarrow> state \<Rightarrow> state" where
  "display ev s = s\<lparr>ui := ui s @ [ev]\<rparr>"

text \<open>\<^verbatim>\<open>d[key]\<close>.\<close>

fun subscript :: "pyval \<Rightarrow> string \<Rightarrow> error + pyval" where
  "subscript (DictV kvs) k = (case map_of kvs k of None \<Rightarrow> Inl KeyError | Some v \<Rightarrow> Inr v)"
| "subscript _ k = Inl TypeError"

text \<open>\<^verbatim>\<open>"..." + text\<close>: only a string can be appended to a string.\<close>

fun str_concat :: "string \<Rightarrow> pyval \<Rightarrow> error + string" where
  "str_concat a (StrV b) = Inr (a @ b)"
| "str_concat a _ = Inl TypeError"

text \<open>Whether \<^verbatim>\<open>json.dumps\<close> accepts the value.\<close>

fun json_serializable :: "pyval \<Rightarrow> bool" where
  "json_serializable (PayloadV v) = False"
| "json_serializable CoroutineV = False"
| "json_serializable (ListV xs) = list_all json_serializable xs"
| "json_serializable (DictV kvs) = list_all (\<lambda>kv. json_serializable (snd kv)) kvs"
| "json_serializable _ = True"

section \<open>The stage adapters of backend.py\<close>

definition CLIPDROP_API_URL :: string where
  "CLIPDROP_API_URL = ''https://clipdrop-api.co/text-to-image/v1''"

definition OPENAI_STT_ENDPOINT :: string where
  "OPENAI_STT_ENDPOINT = ''https://api.openai.com/v1/audio/transcriptions''"

definition stt_request_of :: "string \<Rightarrow> upload_file \<Rightarrow> byte list \<Rightarrow> stt_request" where
  "stt_request_of api_key file file_bytes =
     \<lparr>stt_url = OPENAI_STT_ENDPOINT,
      stt_authorization = ''Bearer '' @ api_key,
      stt_file = (filename file, file_bytes, content_type file),
      stt_model = ''whisper-1''\<rparr>"

text \<open>The body of the \<^verbatim>\<open>try\<close> block of \<^verbatim>\<open>transcribe_audio_func\<close>.\<close>

definition transcribe_try ::
  "env \<Rightarrow> upload_file \<Rightarrow> string \<Rightarrow> string \<Rightarrow> state \<Rightarrow> (error + pyval) \<times> state" where
  "transcribe_try e file api_key tmp_path s =
     (case fs s tmp_path of
        None \<Rightarrow> (Inl OSError, s)
      | Some file_bytes \<Rightarrow>
          (let req = stt_request_of api_key file file_bytes;
               response = stt e req;
               s1 = record_call (STT req) s
           in if status_code response \<noteq> 200
              then (Inl (HTTPException (status_code response) (resp_text response)), s1)
              else (case resp_json response of
                      None \<Rightarrow> (Inl JSONDecodeError, s1)
                    | Some (DictV kvs) \<Rightarrow>
                        (Inr (DictV [(''transcription'', dict_get kvs ''text'' (StrV []))]), s1)
                    | Some _ \<Rightarrow> (Inl AttributeError, s1))))"

text \<open>
  \<^verbatim>\<open>transcribe_audio_func\<close>: the key is resolved first, the upload is copied to a
  temporary file, and the \<^verbatim>\<open>finally\<close> clause removes that file, ignoring a failure of
  the removal.
\<close>

definition transcribe_audio_func :: "env \<Rightarrow> upload_file \<Rightarrow> state \<Rightarrow> (error + pyval) \<times> state" where
  "transcribe_audio_func e file s =
     (case get_secret e ''OPENAI_API_KEY'' of
        Inl err \<Rightarrow> (Inl err, s)
      | Inr api_key \<Rightarrow>
          (let file_content = file_data file;
               (tmp_path, s1) = NamedTemporaryFile e ''.mp3'' file_content s;
               (r, s2) = transcribe_try e file api_key tmp_path s1;
               (_, s3) = os_remove e tmp_path s2
           in (r, s3)))"

text \<open>
  The instruction templates. The typographic apostrophe U+2019 of the two prompt-generator
  templates lies outside the modelled range of code points and is written U+0027.
\<close>

definition emotion_instruction :: string where
  "emotion_instruction =
     ''Lis ce r'' @ [CHR 0xEA] @ ''ve et classe-le dans l'' @ [CHR 0x27]
     @ ''une de ces cat'' @ [CHR 0xE9]
     @ ''gories : heureux, stressant, neutre, cauchemar, '' @ [CHR 0xE9] @ ''trange. ''
     @ ''R'' @ [CHR 0xE9] @ ''ponds uniquement par la cat'' @ [CHR 0xE9] @ ''gorie.''
     @ [CHR 0x0A] @ ''R'' @ [CHR 0xEA] @ ''ve :'' @ [CHR 0x0A]"

definition emotion_system :: string where
  "emotion_system =
     ''Tu es un assistant expert en analyse d'' @ [CHR 0x27, CHR 0xE9]
     @ ''motions de r'' @ [CHR 0xEA] @ ''ves.''"

definition prompt_instruction :: string where
  "prompt_instruction =
     ''Lis ce r'' @ [CHR 0xEA] @ ''ve et '' @ [CHR 0xE9] @ ''cris un prompt descriptif pour g''
     @ [CHR 0xE9] @ ''n'' @ [CHR 0xE9] @ ''rer une image onirique qui l'' @ [CHR 0x27]
     @ ''illustre. Sois concis et imag'' @ [CHR 0xE9] @ ''.''
     @ [CHR 0x0A] @ ''R'' @ [CHR 0xEA] @ ''ve :'' @ [CHR 0x0A]"

definition prompt_system :: string where
  "prompt_system =
     ''Tu es un assistant expert en prompts d'' @ [CHR 0x27] @ ''images oniriques.''"

definition emotion_request :: "string \<Rightarrow> string \<Rightarrow> chat_request" where
  "emotion_request api_key prompt =
     \<lparr>chat_api_key = api_key,
      chat_model = ''mixtral-8x7b-32768'',
      chat_messages = [(''system'', emotion_system), (''user'', prompt)],
      max_tokens = 10,
      temperature = 0\<rparr>"

definition prompt_request :: "string \<Rightarrow> string \<Rightarrow> chat_request" where
  "prompt_request api_key prompt =
     \<lparr>chat_api_key = api_key,
      chat_model = ''mixtral-8x7b-32768'',
      chat_messages = [(''system'', prompt_system), (''user'', prompt)],
      max_tokens = 60,
      temperature = 7 / 10\<rparr>"

text \<open>
  The SDK client \<^verbatim>\<open>Groq(api_key=api_key)\<close> belongs to the \<^verbatim>\<open>groq\<close> library; its call
  \<^verbatim>\<open>client.chat.completions.create\<close> is modelled from the behaviour of the library. The
  client is built with the default of two retries: a response with a status from 200 to
  299 is decoded and returned as the completion; a response with status 408, 409, 429 or
  500 and above is asked for again while a retry is left; any other response, and the last
  one when no retry is left, makes the client raise its status error with the status code
  and the body of that response.
\<close>

definition is_success :: "int \<Rightarrow> bool" where
  "is_success code = (200 \<le> code \<and> code < 300)"

definition should_retry :: "int \<Rightarrow> bool" where
  "should_retry code = (code = 408 \<or> code = 409 \<or> code = 429 \<or> 500 \<le> code)"

definition DEFAULT_MAX_RETRIES :: nat where
  "DEFAULT_MAX_RETRIES = 2"

fun sdk_request :: "env \<Rightarrow> chat_request \<Rightarrow> nat \<Rightarrow> nat \<Rightarrow> state \<Rightarrow> (error + pyval) \<times> state" where
  "sdk_request e req 0 attempt s =
     (let response = chat e attempt req;
          s1 = record_call (Chat req) s
      in if is_success (status_code response)
         then (case resp_json response of
                 None \<Rightarrow> (Inl JSONDecodeError, s1)
               | Some completion \<Rightarrow> (Inr completion, s1))
         else (Inl (APIStatusError (status_code response) (resp_text response)), s1))"
| "sdk_request e req (Suc remaining) attempt s =
     (let response = chat e attempt req;
          s1 = record_call (Chat req) s
      in if is_success (status_code response)
         then (case resp_json response of
                 None \<Rightarrow> (Inl JSONDecodeError, s1)
               | Some completion \<Rightarrow> (Inr completion, s1))
         else if should_retry (status_code response)
         then sdk_request e req remaining (Suc attempt) s1
         else (Inl (APIStatusError (status_code response) (resp_text response)), s1))"

definition completions_create :: "env \<Rightarrow> chat_request \<Rightarrow> state \<Rightarrow> (error + pyval) \<times> state" where
  "completions_create e req s = sdk_request e req DEFAULT_MAX_RETRIES 0 s"

text \<open>
  \<^verbatim>\<open>Groq\<close> is the synchronous client of the library: \<^verbatim>\<open>create\<close> has sent the request
  and returned the completion itself by the time \<^verbatim>\<open>await\<close> is applied to it, and a
  completion is not awaitable. The \<^verbatim>\<open>await\<close> expression of both completion stages
  therefore raises \<^verbatim>\<open>TypeError\<close>, whatever the completion is.
\<close>

definition await_value :: "pyval \<Rightarrow> error + pyval" where
  "await_value v = Inl TypeError"

text \<open>
  \<^verbatim>\<open>completion.choices[0].message.content\<close>, on which a string method is then called.
\<close>

fun attribute :: "pyval \<Rightarrow> string \<Rightarrow> error + pyval" where
  "attribute (DictV kvs) k = (case map_of kvs k of None \<Rightarrow> Inl AttributeError | Some v \<Rightarrow> Inr v)"
| "attribute _ k = Inl AttributeError"

fun first_item :: "pyval \<Rightarrow> error + pyval" where
  "first_item (ListV (x # xs)) = Inr x"
| "first_item (ListV []) = Inl IndexError"
| "first_item _ = Inl TypeError"

fun string_receiver :: "pyval \<Rightarrow> error + string" where
  "string_receiver (StrV c) = Inr c"
| "string_receiver _ = Inl AttributeError"

definition message_content :: "pyval \<Rightarrow> error + string" where
  "message_content completion =
     (case attribute completion ''choices'' of
        Inl err \<Rightarrow> Inl err
      | Inr choices \<Rightarrow>
     (case first_item choices of
        Inl err \<Rightarrow> Inl err
      | Inr choice \<Rightarrow>
     (case attribute choice ''message'' of
        Inl err \<Rightarrow> Inl err
      | Inr message \<Rightarrow>
     (case attribute message ''content'' of
        Inl err \<Rightarrow> Inl err
      | Inr content \<Rightarrow> string_receiver content))))"

definition detect_emotion_func :: "env \<Rightarrow> pyval \<Rightarrow> state \<Rightarrow> (error + pyval) \<times> state" where
  "detect_emotion_func e text s =
     (case get_secret e ''GROQ_API_KEY'' of
        Inl err \<Rightarrow> (Inl err, s)
      | Inr api_key \<Rightarrow>
          (case str_concat emotion_instruction text of
             Inl err \<Rightarrow> (Inl err, s)
           | Inr prompt \<Rightarrow>
               (case completions_create e (emotion_request api_key prompt) s of
                  (Inl err, s1) \<Rightarrow> (Inl err, s1)
                | (Inr created, s1) \<Rightarrow>
                    (case await_value created of
                       Inl err \<Rightarrow> (Inl err, s1)
                     | Inr completion \<Rightarrow>
                         (case message_content completion of
                            Inl err \<Rightarrow> (Inl err, s1)
                          | Inr content \<Rightarrow>
                              (Inr (DictV [(''emotion'', StrV (py_lower (py_strip content)))]),
                               s1))))))"

definition generate_image_prompt_func :: "env \<Rightarrow> pyval \<Rightarrow> state \<Rightarrow> (error + pyval) \<times> state" where
  "generate_image_prompt_func e text s =
     (case get_secret e ''GROQ_API_KEY'' of
        Inl err \<Rightarrow> (Inl err, s)
      | Inr api_key \<Rightarrow>
          (case str_concat prompt_instruction text of
             Inl err \<Rightarrow> (Inl err, s)
           | Inr prompt \<Rightarrow>
               (case completions_create e (prompt_request api_key prompt) s of
                  (Inl err, s1) \<Rightarrow> (Inl err, s1)
                | (Inr created, s1) \<Rightarrow>
                    (case await_value created of
                       Inl err \<Rightarrow> (Inl err, s1)
                     | Inr completion \<Rightarrow>
                         (case message_content completion of
                            Inl err \<Rightarrow> (Inl err, s1)
                          | Inr content \<Rightarrow>
                              (Inr (DictV [(''prompt'', StrV (py_strip content))]), s1))))))"

definition image_request_of :: "string \<Rightarrow> pyval \<Rightarrow> image_request" where
  "image_request_of api_key prompt =
     \<lparr>img_url = CLIPDROP_API_URL, img_api_key = api_key, img_prompt = prompt\<rparr>"

definition generate_image_func :: "env \<Rightarrow> pyval \<Rightarrow> state \<Rightarrow> (error + pyval) \<times> state" where
  "generate_image_func e prompt s =
     (case get_secret e ''CLIPDROP_API_KEY'' of
        Inl err \<Rightarrow> (Inl err, s)
      | Inr api_key \<Rightarrow>
          (if \<not> json_serializable prompt then (Inl TypeError, s)
           else
             (let req = image_request_of api_key prompt;
                  response = clipdrop e req;
                  s1 = record_call (Image req) s
              in if status_code response \<noteq> 200
                 then (Inl (HTTPException (status_code response) (resp_text response)), s1)
                 else (Inr (DictV [(''image'',
                              StrV (data_uri_prefix @ b64encode (resp_content response)))]),
                       s1))))"

text \<open>
  The endpoint \<^verbatim>\<open>/dream-to-image\<close>: the four stages in sequence; an exception of a
  stage ends the request.
\<close>

definition dream_to_image :: "env \<Rightarrow> upload_file \<Rightarrow> state \<Rightarrow> (error + pyval) \<times> state" where
  "dream_to_image e file s =
     (case transcribe_audio_func e file s of
        (Inl err, s1) \<Rightarrow> (Inl err, s1)
      | (Inr transcription, s1) \<Rightarrow>
     (case subscript transcription ''transcription'' of
        Inl err \<Rightarrow> (Inl err, s1)
      | Inr text \<Rightarrow>
     (case detect_emotion_func e text s1 of
        (Inl err, s2) \<Rightarrow> (Inl err, s2)
      | (Inr emotion, s2) \<Rightarrow>
     (case generate_image_prompt_func e text s2 of
        (Inl err, s3) \<Rightarrow> (Inl err, s3)
      | (Inr prompt_data, s3) \<Rightarrow>
     (case subscript prompt_data ''prompt'' of
        Inl err \<Rightarrow> (Inl err, s3)
      | Inr prompt \<Rightarrow>
     (case generate_image_func e prompt s3 of
        (Inl err, s4) \<Rightarrow> (Inl err, s4)
      | (Inr image_data, s4) \<Rightarrow>
     (case subscript emotion ''emotion'' of
        Inl err \<Rightarrow> (Inl err, s4)
      | Inr emotion_v \<Rightarrow>
     (case subscript prompt_data ''prompt'' of
        Inl err \<Rightarrow> (Inl err, s4)
      | Inr prompt_v \<Rightarrow>
     (case subscript image_data ''image'' of
        Inl err \<Rightarrow> (Inl err, s4)
      | Inr image_v \<Rightarrow>
          (Inr (DictV [(''transcription'', text), (''emotion'', emotion_v),
                       (''prompt'', prompt_v), (''image'', image_v)]), s4))))))))))"

section \<open>The interactive pipeline of app.py\<close>

text \<open>
  \<^verbatim>\<open>DummyUploadFile(path)\<close> derives the file name and the media type from the path and
  opens the file; \<^verbatim>\<open>close\<close> releases the handle.
\<close>

definition media_type :: "string \<Rightarrow> string" where
  "media_type name =
     (let ext = py_lower (last_part CHR ''.'' name)
      in if ext = ''mp3'' then ''audio/mpeg''
         else if ext = ''wav'' then ''audio/wav''
         else ''application/octet-stream'')"

definition DummyUploadFile :: "string \<Rightarrow> state \<Rightarrow> (error + upload_file) \<times> state" where
  "DummyUploadFile path s =
     (let name = last_part CHR ''/'' path
      in case fs s path of
           None \<Rightarrow> (Inl OSError, s)
         | Some data \<Rightarrow>
             (Inr \<lparr>filename = name, content_type = media_type name, file_data = data\<rparr>,
              s\<lparr>handles := path # handles s\<rparr>))"

definition close_file :: "string \<Rightarrow> state \<Rightarrow> state" where
  "close_file path s = s\<lparr>handles := remove1 path (handles s)\<rparr>"

definition transcribe_audio_sync :: "env \<Rightarrow> string \<Rightarrow> state \<Rightarrow> (error + pyval) \<times> state" where
  "transcribe_audio_sync e audio_path s =
     (case DummyUploadFile audio_path s of
        (Inl err, s1) \<Rightarrow> (Inl err, s1)
      | (Inr dummy_file, s1) \<Rightarrow>
          (let (r, s2) = transcribe_audio_func e dummy_file s1
           in (r, close_file audio_path s2)))"

text \<open>The two wrappers hand the stage a \<^verbatim>\<open>Payload\<close> object, not the string itself.\<close>

definition detect_emotion_sync :: "env \<Rightarrow> pyval \<Rightarrow> state \<Rightarrow> (error + pyval) \<times> state" where
  "detect_emotion_sync e text s = detect_emotion_func e (PayloadV text) s"

definition generate_image_prompt_sync :: "env \<Rightarrow> pyval \<Rightarrow> state \<Rightarrow> (error + pyval) \<times> state" where
  "generate_image_prompt_sync e text s = generate_image_prompt_func e (PayloadV text) s"

text \<open>
  \<^verbatim>\<open>generate_image_sync\<close> returns the result of calling the \<^verbatim>\<open>async def\<close> function
  without awaiting or running it: a coroutine object, and the body of
  \<^verbatim>\<open>generate_image_func\<close> is not executed.
\<close>

definition generate_image_sync :: "pyval \<Rightarrow> pyval" where
  "generate_image_sync prompt = CoroutineV"

text \<open>\<^verbatim>\<open>resp.get(key, default) if isinstance(resp, dict) else other\<close>.\<close>

fun get_if_dict :: "pyval \<Rightarrow> string \<Rightarrow> pyval \<Rightarrow> pyval \<Rightarrow> pyval" where
  "get_if_dict (DictV kvs) k d other = dict_get kvs k d"
| "get_if_dict _ k d other = other"

fun lower_method :: "pyval \<Rightarrow> error + string" where
  "lower_method (StrV v) = Inr (py_lower v)"
| "lower_method _ = Inl AttributeError"

text \<open>
  Steps 2 to 4 of the page, run when the transcription is not empty. The widgets that
  follow them on the page (download, restart, debug view) call no stage and are left out.
\<close>

definition pipeline_stages :: "env \<Rightarrow> pyval \<Rightarrow> state \<Rightarrow> (error + unit) \<times> state" where
  "pipeline_stages e transcription s =
     (case detect_emotion_sync e transcription s of
        (Inl err, s1) \<Rightarrow> (Inl err, s1)
      | (Inr emotion_resp, s1) \<Rightarrow>
     (case (case emotion_resp of
              DictV kvs \<Rightarrow> lower_method (dict_get kvs ''emotion'' (StrV []))
            | _ \<Rightarrow> Inr []) of
        Inl err \<Rightarrow> (Inl err, s1)
      | Inr emotion \<Rightarrow>
     (case generate_image_prompt_sync e transcription (display (Show_emotion emotion) s1) of
        (Inl err, s3) \<Rightarrow> (Inl err, s3)
      | (Inr prompt_resp, s3) \<Rightarrow>
          (let prompt = get_if_dict prompt_resp ''prompt'' NoneV NoneV;
               s4 = display (if truthy prompt then Show_prompt prompt else Warn_no_prompt) s3
           in if truthy prompt then
                (let image_data_resp = generate_image_sync prompt;
                     image_data = get_if_dict image_data_resp ''image'' NoneV NoneV
                 in (Inr (),
                     display (if truthy image_data then Show_image image_data
                              else Warn_no_image) s4))
              else (Inr (), s4)))))"

text \<open>The \<^verbatim>\<open>try\<close> block of the page.\<close>

definition pipeline_try :: "env \<Rightarrow> string \<Rightarrow> state \<Rightarrow> (error + unit) \<times> state" where
  "pipeline_try e audio_path s =
     (case transcribe_audio_sync e audio_path s of
        (Inl err, s1) \<Rightarrow> (Inl err, s1)
      | (Inr transcription_resp, s1) \<Rightarrow>
          (let transcription = get_if_dict transcription_resp ''transcription'' (StrV []) (StrV []);
               s2 = display (if \<not> truthy transcription then Warn_no_transcription
                             else Show_transcription transcription) s1
           in if truthy transcription then pipeline_stages e transcription s2
              else (Inr (), s2)))"

text \<open>
  The block run for an uploaded file: the upload is written to a temporary file, the
  \<^verbatim>\<open>try\<close> block runs, \<^verbatim>\<open>except Exception\<close> displays the error, and the
  \<^verbatim>\<open>finally\<close> clause removes the temporary file if it still exists, displaying a warning
  when the removal fails.
\<close>

record uploaded =
  upload_name :: string
  upload_data :: "byte list"

definition pipeline :: "env \<Rightarrow> uploaded \<Rightarrow> state \<Rightarrow> string \<times> state" where
  "pipeline e uploaded_file s =
     (let suffix = ''.'' @ last_part CHR ''.'' (upload_name uploaded_file);
          (audio_path, s1) = NamedTemporaryFile e suffix (upload_data uploaded_file) s;
          (r, s2) = pipeline_try e audio_path s1;
          s3 = (case r of Inl err \<Rightarrow> display (Show_error err) s2 | Inr _ \<Rightarrow> s2)
      in if fs s3 audio_path \<noteq> None then
           (case os_remove e audio_path s3 of
              (Inl err, s4) \<Rightarrow> (audio_path, display (Warn_cannot_remove err) s4)
            | (Inr _, s4) \<Rightarrow> (audio_path, s4))
         else (audio_path, s3))"

section \<open>Observations on a run\<close>

text \<open>
  The outcome "a transcription string was returned, or the upstream error was raised with
  a status code and a body".
\<close>

fun string_or_upstream_error :: "error + pyval \<Rightarrow> bool" where
  "string_or_upstream_error (Inr (DictV [(k, StrV t)])) = (k = ''transcription'')"
| "string_or_upstream_error (Inl (HTTPException code body)) = True"
| "string_or_upstream_error _ = False"

text \<open>The requests that belong to a stage after the transcription.\<close>

fun downstream :: "call \<Rightarrow> bool" where
  "downstream (STT r) = False"
| "downstream (Chat r) = True"
| "downstream (Image r) = True"

fun image_call :: "call \<Rightarrow> bool" where
  "image_call (Image r) = True"
| "image_call _ = False"

text \<open>The path that \<^verbatim>\<open>tempfile\<close> gives the next temporary file.\<close>

definition next_tmp_path :: "env \<Rightarrow> state \<Rightarrow> string \<Rightarrow> string" where
  "next_tmp_path e s suffix = ''/tmp/tmp'' @ tmp_name e (tmp_count s) @ suffix"

section \<open>Example runs\<close>

text \<open>A 200 response of the completion service whose first choice has the given content.\<close>

definition completion_response :: "string \<Rightarrow> http_response" where
  "completion_response content =
     \<lparr>status_code = 200, resp_text = [], resp_content = [],
      resp_json = Some (DictV [(''choices'',
                    ListV [DictV [(''message'', DictV [(''content'', StrV content)])]])])\<rparr>"

text \<open>
  A run in which every key is set in the process environment and every service answers
  with status 200.
\<close>

definition example_env :: env where
  "example_env =
     \<lparr>use_streamlit_secrets = False,
      secrets = None,
      environ = [''OPENAI_API_KEY'' \<mapsto> ''sk-openai'', ''GROQ_API_KEY'' \<mapsto> ''gsk-groq'',
                 ''CLIPDROP_API_KEY'' \<mapsto> ''cd-key''],
      tmp_name = (\<lambda>n. replicate (Suc n) CHR ''x''),
      stt = (\<lambda>r. \<lparr>status_code = 200, resp_text = [], resp_content = [],
                    resp_json = Some (DictV [(''text'', StrV ''Je volais'')])\<rparr>),
      chat = (\<lambda>n r. if max_tokens r = 10 then completion_response ('' Cauchemar'' @ [CHR 0x0A])
                    else completion_response ''  une ville en feu  ''),
      clipdrop = (\<lambda>r. \<lparr>status_code = 200, resp_text = [],
                         resp_content = [0x89, 0x50, 0x4E, 0x47], resp_json = None\<rparr>),
      remove_fails = (\<lambda>p. False)\<rparr>"

definition example_file :: upload_file where
  "example_file = \<lparr>filename = ''reve.mp3'', content_type = ''audio/mpeg'', file_data = [1, 2, 3]\<rparr>"

definition example_upload :: uploaded where
  "example_upload = \<lparr>upload_name = ''reve.mp3'', upload_data = [1, 2, 3]\<rparr>"

definition example_state :: state where
  "example_state = \<lparr>fs = Map.empty, tmp_count = 0, handles = [], calls = [], ui = []\<rparr>"

text \<open>The speech-to-text service hears nothing: a 200 response without a \<^verbatim>\<open>text\<close> field.\<close>

definition silent_env :: env where
  "silent_env =
     example_env\<lparr>stt := (\<lambda>r. \<lparr>status_code = 200, resp_text = ''{}'', resp_content = [],
                                  resp_json = Some (DictV [])\<rparr>)\<rparr>"

text \<open>Every upstream service is down.\<close>

definition failing_env :: env where
  "failing_env =
     example_env\<lparr>stt := (\<lambda>r. \<lparr>status_code = 503, resp_text = ''unavailable'',
                                  resp_content = [], resp_json = None\<rparr>),
                  chat := (\<lambda>n r. \<lparr>status_code = 503, resp_text = ''unavailable'',
                                    resp_content = [], resp_json = None\<rparr>),
                  clipdrop := (\<lambda>r. \<lparr>status_code = 503, resp_text = ''unavailable'',
                                       resp_content = [], resp_json = None\<rparr>)\<rparr>"

text \<open>The completion service refuses the key.\<close>

definition refusing_env :: env where
  "refusing_env =
     example_env\<lparr>chat := (\<lambda>n r. \<lparr>status_code = 401, resp_text = ''invalid api key'',
                                    resp_content = [], resp_json = None\<rparr>)\<rparr>"

text \<open>The completion service is down at the first attempt and refuses the key afterwards.\<close>

definition recovering_env :: env where
  "recovering_env =
     example_env\<lparr>chat := (\<lambda>n r. if n = 0
                                  then \<lparr>status_code = 503, resp_text = ''unavailable'',
                                        resp_content = [], resp_json = None\<rparr>
                                  else \<lparr>status_code = 401, resp_text = ''invalid api key'',
                                        resp_content = [], resp_json = None\<rparr>)\<rparr>"

text \<open>One key is not configured.\<close>

definition no_openai_key_env :: env where
  "no_openai_key_env =
     example_env\<lparr>environ := [''GROQ_API_KEY'' \<mapsto> ''gsk-groq'', ''CLIPDROP_API_KEY'' \<mapsto> ''cd-key'']\<rparr>"

definition no_clipdrop_key_env :: env where
  "no_clipdrop_key_env =
     example_env\<lparr>environ := [''OPENAI_API_KEY'' \<mapsto> ''sk-openai'', ''GROQ_API_KEY'' \<mapsto> ''gsk-groq'']\<rparr>"

text \<open>The temporary files are locked: \<^verbatim>\<open>os.remove\<close> fails.\<close>

definition locked_env :: env where
  "locked_env = example_env\<lparr>remove_fails := (\<lambda>p. True)\<rparr>"

text \<open>
  Streamlit is installed, there is no secrets file, and the keys are in the process
  environment.
\<close>

definition no_secrets_file :: config where
  "no_secrets_file =
     \<lparr>use_streamlit_secrets = True, secrets = None,
      environ = [''GROQ_API_KEY'' \<mapsto> ''gsk-groq'']\<rparr>"

section \<open>Properties of the secret resolver\<close>

lemma lookup_environ_error:
  "lookup_environ cfg name = Inl err \<Longrightarrow> err = RuntimeError (missing_key_message name)"
  by (auto simp: lookup_environ_def split: if_splits option.splits)

lemma get_secret_error:
  "get_secret cfg name = Inl err \<Longrightarrow>
   err = RuntimeError (missing_key_message name) \<or> err = StreamlitSecretNotFoundError"
  by (auto simp: get_secret_def split: if_splits option.splits dest: lookup_environ_error)


lemma get_secret_not_in_store:
  "not_in_store cfg name \<Longrightarrow> get_secret cfg name = lookup_environ cfg name"
  by (auto simp: get_secret_def not_in_store_def split: if_splits option.splits)

lemma get_secret_store_unreadable:
  "use_streamlit_secrets cfg \<Longrightarrow> secrets cfg = None \<Longrightarrow>
   get_secret cfg name = Inl StreamlitSecretNotFoundError"
  by (simp add: get_secret_def)

lemma get_secret_from_environ:
  "not_in_store cfg name \<Longrightarrow> environ cfg name = Some v \<Longrightarrow> v \<noteq> [] \<Longrightarrow>
   get_secret cfg name = Inr v"
  by (simp add: get_secret_not_in_store lookup_environ_def)


text \<open>
  Claim C3 on a machine where Streamlit is installed and no secrets file exists. The key is
  in the process environment, and the lookup in the environment alone would return it; yet
  \<^verbatim>\<open>get_secret\<close> ends with the error of the store, raised by \<^verbatim>\<open>name in st.secrets\<close>
  before the environment is read. For a name that neither source has, the error is again
  the store's and not the missing-key error.
\<close>

theorem get_secret_without_secrets_file:
  "get_secret no_secrets_file ''GROQ_API_KEY'' = Inl StreamlitSecretNotFoundError
   \<and> lookup_environ no_secrets_file ''GROQ_API_KEY'' = Inr ''gsk-groq''
   \<and> get_secret no_secrets_file ''OPENAI_API_KEY'' = Inl StreamlitSecretNotFoundError
   \<and> lookup_environ no_secrets_file ''OPENAI_API_KEY''
     = Inl (RuntimeError (missing_key_message ''OPENAI_API_KEY''))"
  by (simp add: get_secret_def lookup_environ_def no_secrets_file_def)



section \<open>Base64 round trip\<close>

text \<open>
  Every index below 64 has its own character in the alphabet, the padding character is not
  one of them, and the four sextets of a group of three bytes give the three bytes back.
\<close>

lemma index_of_nth:
  "distinct xs \<Longrightarrow> i < length xs \<Longrightarrow> index_of (xs ! i) xs = Some i"
proof (induction xs arbitrary: i)
  case Nil
  then show ?case by simp
next
  case (Cons x xs)
  show ?case
  proof (cases i)
    case 0
    then show ?thesis by simp
  next
    case (Suc j)
    with Cons.prems have "j < length xs" "xs ! j \<noteq> x" "distinct xs" by auto
    with Cons.IH [of j] Suc show ?thesis by simp
  qed
qed

lemma b64_alphabet_distinct: "distinct b64_alphabet"
  by (simp add: b64_alphabet_def)

lemma b64_alphabet_length: "length b64_alphabet = 64"
  by (simp add: b64_alphabet_def)

lemma b64_index_char: "i < 64 \<Longrightarrow> b64_index (b64_char i) = Some i"
  by (simp add: b64_index_def b64_char_def index_of_nth b64_alphabet_distinct b64_alphabet_length)

lemma b64_pad_not_in_alphabet: "CHR ''='' \<notin> set b64_alphabet"
  by (simp add: b64_alphabet_def)

lemma b64_char_not_pad: "i < 64 \<Longrightarrow> b64_char i \<noteq> CHR ''=''"
  using b64_pad_not_in_alphabet nth_mem [of i b64_alphabet]
  unfolding b64_char_def b64_alphabet_length by metis

lemma byte_lt: "unat (a :: byte) < 256"
  using unsigned_less [of a, where ?'a = nat] by simp

lemma sextet1: "unat (a :: byte) div 4 < 64"
  using byte_lt [of a] by simp

lemma sextet2': "unat (a :: byte) mod 4 * 16 < 64"
proof -
  have "unat a mod 4 < 4" by simp
  then show ?thesis by linarith
qed

lemma sextet2: "unat (a :: byte) mod 4 * 16 + unat (b :: byte) div 16 < 64"
proof -
  have "unat a mod 4 < 4" by simp
  moreover have "unat b div 16 < 16" using byte_lt [of b] by simp
  ultimately show ?thesis by linarith
qed

lemma sextet3': "unat (b :: byte) mod 16 * 4 < 64"
proof -
  have "unat b mod 16 < 16" by simp
  then show ?thesis by linarith
qed

lemma sextet3: "unat (b :: byte) mod 16 * 4 + unat (c :: byte) div 64 < 64"
proof -
  have "unat b mod 16 < 16" by simp
  moreover have "unat c div 64 < 4" using byte_lt [of c] by simp
  ultimately show ?thesis by linarith
qed

lemma sextet4: "unat (c :: byte) mod 64 < 64"
  by simp

lemma byte1: "of_nat (unat a div 4 * 4 + (unat a mod 4 * 16 + unat (b :: byte) div 16) div 16) = (a :: byte)"
proof -
  have "unat b div 16 < 16" using byte_lt [of b] by simp
  then have "(unat a mod 4 * 16 + unat b div 16) div 16 = unat a mod 4" by simp
  then have "unat a div 4 * 4 + (unat a mod 4 * 16 + unat b div 16) div 16 = unat a"
    by simp
  then show ?thesis by (simp only: of_nat_unat ucast_id)
qed

lemma byte1': "of_nat (unat a div 4 * 4 + (unat a mod 4 * 16) div 16) = (a :: byte)"
proof -
  have "unat a div 4 * 4 + (unat a mod 4 * 16) div 16 = unat a" by simp
  then show ?thesis by (simp only: of_nat_unat ucast_id)
qed

lemma byte2: "of_nat ((unat (a :: byte) mod 4 * 16 + unat b div 16) mod 16 * 16
   + (unat b mod 16 * 4 + unat (c :: byte) div 64) div 4) = (b :: byte)"
proof -
  have b: "unat b div 16 < 16" using byte_lt [of b] by simp
  have c: "unat c div 64 < 4" using byte_lt [of c] by simp
  from b have "(unat a mod 4 * 16 + unat b div 16) mod 16 = unat b div 16" by simp
  moreover from c have "(unat b mod 16 * 4 + unat c div 64) div 4 = unat b mod 16" by simp
  ultimately have "(unat a mod 4 * 16 + unat b div 16) mod 16 * 16
   + (unat b mod 16 * 4 + unat c div 64) div 4 = unat b" by simp
  then show ?thesis by (simp only: of_nat_unat ucast_id)
qed

lemma byte2': "of_nat ((unat (a :: byte) mod 4 * 16 + unat b div 16) mod 16 * 16
   + (unat b mod 16 * 4) div 4) = (b :: byte)"
proof -
  have b: "unat b div 16 < 16" using byte_lt [of b] by simp
  from b have "(unat a mod 4 * 16 + unat b div 16) mod 16 = unat b div 16" by simp
  then have "(unat a mod 4 * 16 + unat b div 16) mod 16 * 16
   + (unat b mod 16 * 4) div 4 = unat b" by simp
  then show ?thesis by (simp only: of_nat_unat ucast_id)
qed

lemma byte3: "of_nat ((unat (b :: byte) mod 16 * 4 + unat c div 64) mod 4 * 64 + unat c mod 64) = (c :: byte)"
proof -
  have c: "unat c div 64 < 4" using byte_lt [of c] by simp
  from c have "(unat b mod 16 * 4 + unat c div 64) mod 4 = unat c div 64" by simp
  then have "(unat b mod 16 * 4 + unat c div 64) mod 4 * 64 + unat c mod 64 = unat c" by simp
  then show ?thesis by (simp only: of_nat_unat ucast_id)
qed

lemma b64decode_b64encode: "b64decode (b64encode bs) = Some bs"
proof (induction bs rule: b64encode.induct)
  case 1
  then show ?case by simp
next
  case (2 a)
  show ?case
    by (simp only: b64encode.simps b64decode.simps b64_index_char [OF sextet1]
        b64_index_char [OF sextet2'] byte1' simp_thms if_True prod.case option.case)
next
  case (3 a b)
  show ?case
    by (simp only: b64encode.simps b64decode.simps b64_index_char [OF sextet1]
        b64_index_char [OF sextet2] b64_index_char [OF sextet3']
        b64_char_not_pad [OF sextet3'] byte1 byte2'
        simp_thms if_True if_False prod.case option.case)
next
  case (4 a b c rest)
  show ?case
    by (simp only: b64encode.simps b64decode.simps append.simps "4.IH"
        b64_index_char [OF sextet1] b64_index_char [OF sextet2]
        b64_index_char [OF sextet3] b64_index_char [OF sextet4]
        b64_char_not_pad [OF sextet3] b64_char_not_pad [OF sextet4] byte1 byte2 byte3
        simp_thms if_True if_False prod.case option.case)
qed

section \<open>Properties of the stage adapters\<close>

lemma transcribe_no_key:
  "get_secret e ''OPENAI_API_KEY'' = Inl err \<Longrightarrow> transcribe_audio_func e file s = (Inl err, s)"
  by (simp add: transcribe_audio_func_def)

lemma transcribe_fst_non200:
  assumes "get_secret e ''OPENAI_API_KEY'' = Inr key"
    and "status_code (stt e (stt_request_of key file (file_data file))) \<noteq> 200"
  shows "fst (transcribe_audio_func e file s) =
         Inl (HTTPException (status_code (stt e (stt_request_of key file (file_data file))))
                            (resp_text (stt e (stt_request_of key file (file_data file)))))"
  using assms
  by (simp add: transcribe_audio_func_def transcribe_try_def NamedTemporaryFile_def os_remove_def
      record_call_def Let_def case_prod_beta)

lemma transcribe_fst_200:
  assumes "get_secret e ''OPENAI_API_KEY'' = Inr key"
    and "status_code (stt e (stt_request_of key file (file_data file))) = 200"
    and "resp_json (stt e (stt_request_of key file (file_data file))) = Some (DictV kvs)"
  shows "fst (transcribe_audio_func e file s) =
         Inr (DictV [(''transcription'', dict_get kvs ''text'' (StrV []))])"
  using assms
  by (simp add: transcribe_audio_func_def transcribe_try_def NamedTemporaryFile_def os_remove_def
      record_call_def Let_def case_prod_beta)

lemma transcribe_calls:
  assumes "get_secret e ''OPENAI_API_KEY'' = Inr key"
  shows "calls (snd (transcribe_audio_func e file s)) =
         calls s @ [STT (stt_request_of key file (file_data file))]"
  using assms
  by (simp add: transcribe_audio_func_def transcribe_try_def NamedTemporaryFile_def os_remove_def
      record_call_def Let_def case_prod_beta split: option.splits pyval.splits)

lemma transcribe_fs:
  assumes "get_secret e ''OPENAI_API_KEY'' = Inr key"
  shows "fs (snd (transcribe_audio_func e file s)) =
         (if remove_fails e (''/tmp/tmp'' @ tmp_name e (tmp_count s) @ ''.mp3'')
          then (fs s)(''/tmp/tmp'' @ tmp_name e (tmp_count s) @ ''.mp3'' \<mapsto> file_data file)
          else (fs s)(''/tmp/tmp'' @ tmp_name e (tmp_count s) @ ''.mp3'' := None))"
  using assms
  by (simp add: transcribe_audio_func_def transcribe_try_def NamedTemporaryFile_def os_remove_def
      record_call_def Let_def case_prod_beta split: option.splits pyval.splits)

lemma transcribe_handles:
  "handles (snd (transcribe_audio_func e file s)) = handles s"
  by (simp add: transcribe_audio_func_def transcribe_try_def NamedTemporaryFile_def os_remove_def
      record_call_def Let_def case_prod_beta split: option.splits pyval.splits sum.splits)

lemma transcribe_ui:
  "ui (snd (transcribe_audio_func e file s)) = ui s"
  by (simp add: transcribe_audio_func_def transcribe_try_def NamedTemporaryFile_def os_remove_def
      record_call_def Let_def case_prod_beta split: option.splits pyval.splits sum.splits)

lemma example_keys:
  "get_secret example_env ''OPENAI_API_KEY'' = Inr ''sk-openai''"
  "get_secret example_env ''GROQ_API_KEY'' = Inr ''gsk-groq''"
  "get_secret example_env ''CLIPDROP_API_KEY'' = Inr ''cd-key''"
  by (simp_all add: get_secret_def lookup_environ_def example_env_def)

subsection \<open>The SDK call\<close>

lemma should_retry_not_success: "should_retry code \<Longrightarrow> \<not> is_success code"
  by (auto simp: should_retry_def is_success_def)

lemma sdk_request_frame:
  "fs (snd (sdk_request e req n a s)) = fs s
   \<and> handles (snd (sdk_request e req n a s)) = handles s
   \<and> ui (snd (sdk_request e req n a s)) = ui s
   \<and> tmp_count (snd (sdk_request e req n a s)) = tmp_count s"
proof (induction n arbitrary: a s)
  case 0
  show ?case
    by (simp add: Let_def record_call_def split: option.splits)
next
  case (Suc n)
  from Suc [of "Suc a" "record_call (Chat req) s"] show ?case
    by (simp add: Let_def record_call_def split: option.splits)
qed

lemma completions_create_frame:
  "completions_create e req s = (r, s') \<Longrightarrow>
   fs s' = fs s \<and> handles s' = handles s \<and> ui s' = ui s \<and> tmp_count s' = tmp_count s"
  using sdk_request_frame [of e req DEFAULT_MAX_RETRIES 0 s]
  by (simp add: completions_create_def)

lemma completions_create_success:
  "is_success (status_code (chat e 0 req)) \<Longrightarrow> resp_json (chat e 0 req) = Some completion \<Longrightarrow>
   completions_create e req s = (Inr completion, record_call (Chat req) s)"
  by (simp add: completions_create_def DEFAULT_MAX_RETRIES_def numeral_2_eq_2 Let_def)

lemma completions_create_no_retry:
  "\<not> is_success (status_code (chat e 0 req)) \<Longrightarrow> \<not> should_retry (status_code (chat e 0 req)) \<Longrightarrow>
   completions_create e req s
     = (Inl (APIStatusError (status_code (chat e 0 req)) (resp_text (chat e 0 req))),
        record_call (Chat req) s)"
  by (simp add: completions_create_def DEFAULT_MAX_RETRIES_def numeral_2_eq_2 Let_def)

lemma completions_create_one_retry:
  "should_retry (status_code (chat e 0 req)) \<Longrightarrow>
   \<not> is_success (status_code (chat e 1 req)) \<Longrightarrow> \<not> should_retry (status_code (chat e 1 req)) \<Longrightarrow>
   completions_create e req s
     = (Inl (APIStatusError (status_code (chat e 1 req)) (resp_text (chat e 1 req))),
        record_call (Chat req) (record_call (Chat req) s))"
  by (simp add: completions_create_def DEFAULT_MAX_RETRIES_def numeral_2_eq_2 Let_def
      should_retry_not_success)

lemma completions_create_retries_exhausted:
  "should_retry (status_code (chat e 0 req)) \<Longrightarrow> should_retry (status_code (chat e 1 req)) \<Longrightarrow>
   \<not> is_success (status_code (chat e 2 req)) \<Longrightarrow>
   completions_create e req s
     = (Inl (APIStatusError (status_code (chat e 2 req)) (resp_text (chat e 2 req))),
        record_call (Chat req) (record_call (Chat req) (record_call (Chat req) s)))"
  by (simp add: completions_create_def DEFAULT_MAX_RETRIES_def numeral_2_eq_2 Let_def
      should_retry_not_success)

subsection \<open>Completion stages\<close>

lemma detect_emotion_no_key:
  "get_secret e ''GROQ_API_KEY'' = Inl err \<Longrightarrow> detect_emotion_func e text s = (Inl err, s)"
  by (simp add: detect_emotion_func_def)

lemma detect_emotion_not_str:
  "\<forall>t. text \<noteq> StrV t \<Longrightarrow> get_secret e ''GROQ_API_KEY'' = Inr key \<Longrightarrow>
   detect_emotion_func e text s = (Inl TypeError, s)"
  by (cases "text") (simp_all add: detect_emotion_func_def)

lemma detect_emotion_run:
  "get_secret e ''GROQ_API_KEY'' = Inr key \<Longrightarrow>
   detect_emotion_func e (StrV t) s =
     (case completions_create e (emotion_request key (emotion_instruction @ t)) s of
        (Inl err, s1) \<Rightarrow> (Inl err, s1)
      | (Inr created, s1) \<Rightarrow> (Inl TypeError, s1))"
  by (simp add: detect_emotion_func_def await_value_def split: prod.splits sum.splits)

lemma generate_image_prompt_no_key:
  "get_secret e ''GROQ_API_KEY'' = Inl err \<Longrightarrow>
   generate_image_prompt_func e text s = (Inl err, s)"
  by (simp add: generate_image_prompt_func_def)

lemma generate_image_prompt_not_str:
  "\<forall>t. text \<noteq> StrV t \<Longrightarrow> get_secret e ''GROQ_API_KEY'' = Inr key \<Longrightarrow>
   generate_image_prompt_func e text s = (Inl TypeError, s)"
  by (cases "text") (simp_all add: generate_image_prompt_func_def)

lemma generate_image_prompt_run:
  "get_secret e ''GROQ_API_KEY'' = Inr key \<Longrightarrow>
   generate_image_prompt_func e (StrV t) s =
     (case completions_create e (prompt_request key (prompt_instruction @ t)) s of
        (Inl err, s1) \<Rightarrow> (Inl err, s1)
      | (Inr created, s1) \<Rightarrow> (Inl TypeError, s1))"
  by (simp add: generate_image_prompt_func_def await_value_def split: prod.splits sum.splits)

text \<open>Neither completion stage ever returns a value.\<close>

lemma detect_emotion_never_returns:
  "\<exists>err. fst (detect_emotion_func e text s) = Inl err"
  by (auto simp: detect_emotion_func_def await_value_def split: prod.splits sum.splits)

lemma generate_image_prompt_never_returns:
  "\<exists>err. fst (generate_image_prompt_func e text s) = Inl err"
  by (auto simp: generate_image_prompt_func_def await_value_def split: prod.splits sum.splits)

lemma detect_emotion_frame:
  "detect_emotion_func e text s = (r, s') \<Longrightarrow>
   fs s' = fs s \<and> handles s' = handles s \<and> ui s' = ui s \<and> tmp_count s' = tmp_count s"
  by (auto simp: detect_emotion_func_def await_value_def split: prod.splits sum.splits
      dest: completions_create_frame)

lemma generate_image_prompt_frame:
  "generate_image_prompt_func e text s = (r, s') \<Longrightarrow>
   fs s' = fs s \<and> handles s' = handles s \<and> ui s' = ui s \<and> tmp_count s' = tmp_count s"
  by (auto simp: generate_image_prompt_func_def await_value_def split: prod.splits sum.splits
      dest: completions_create_frame)

subsection \<open>Image stage\<close>

lemma generate_image_no_key:
  "get_secret e ''CLIPDROP_API_KEY'' = Inl err \<Longrightarrow> generate_image_func e prompt s = (Inl err, s)"
  by (simp add: generate_image_func_def)

lemma generate_image_run:
  "get_secret e ''CLIPDROP_API_KEY'' = Inr key \<Longrightarrow> json_serializable prompt \<Longrightarrow>
   generate_image_func e prompt s =
     (if status_code (clipdrop e (image_request_of key prompt)) \<noteq> 200
      then Inl (HTTPException (status_code (clipdrop e (image_request_of key prompt)))
                              (resp_text (clipdrop e (image_request_of key prompt))))
      else Inr (DictV [(''image'',
                  StrV (data_uri_prefix
                        @ b64encode (resp_content (clipdrop e (image_request_of key prompt)))))]),
      record_call (Image (image_request_of key prompt)) s)"
  by (simp add: generate_image_func_def Let_def)

lemma data_uri_payload_prefix: "data_uri_payload (data_uri_prefix @ payload) = payload"
  by (simp add: data_uri_payload_def data_uri_prefix_def)

subsection \<open>White space\<close>

text \<open>
  \<open>py_strip\<close> cuts white space off both ends and nothing else: what it returns is a
  middle part of its argument that neither starts nor ends with white space.
\<close>

lemma py_strip_blank: "list_all is_space t \<Longrightarrow> py_strip t = []"
proof -
  assume "list_all is_space t"
  then have "dropWhile is_space t = []"
    by (simp add: list_all_iff)
  then have "rev (dropWhile is_space (rev (dropWhile is_space t))) = rev (dropWhile is_space (rev []))"
    by (rule arg_cong)
  then show ?thesis by (simp add: py_strip_def)
qed

lemma py_strip_decompose:
  "\<exists>l r. t = l @ py_strip t @ r \<and> list_all is_space l \<and> list_all is_space r"
proof -
  let ?u = "dropWhile is_space t"
  have t: "t = takeWhile is_space t @ ?u" by simp
  have u: "rev ?u = takeWhile is_space (rev ?u) @ dropWhile is_space (rev ?u)" by simp
  have "?u = rev (dropWhile is_space (rev ?u)) @ rev (takeWhile is_space (rev ?u))"
    using arg_cong [OF u, of rev] by (simp del: takeWhile_dropWhile_id)
  then have "t = takeWhile is_space t @ py_strip t @ rev (takeWhile is_space (rev ?u))"
    using t by (simp add: py_strip_def del: takeWhile_dropWhile_id)
  moreover have "list_all is_space (takeWhile is_space t)"
    by (simp add: list_all_iff) (meson set_takeWhileD)
  moreover have "list_all is_space (rev (takeWhile is_space (rev ?u)))"
    by (simp add: list_all_iff) (meson set_takeWhileD)
  ultimately show ?thesis by blast
qed

lemma py_strip_ends:
  "py_strip t \<noteq> [] \<Longrightarrow> \<not> is_space (hd (py_strip t)) \<and> \<not> is_space (last (py_strip t))"
proof -
  assume ne: "py_strip t \<noteq> []"
  let ?u = "dropWhile is_space t"
  let ?w = "dropWhile is_space (rev ?u)"
  from ne have w: "?w \<noteq> []" by (simp add: py_strip_def)
  then have "\<not> is_space (hd ?w)" by (rule hd_dropWhile)
  then have last: "\<not> is_space (last (py_strip t))"
    using w by (simp add: py_strip_def last_rev)
  have u: "?u \<noteq> []"
  proof
    assume "?u = []"
    then have "?w = dropWhile is_space (rev [])" by (rule arg_cong)
    with w show False by simp
  qed
  then have hu: "\<not> is_space (hd ?u)" by (rule hd_dropWhile)
  have "hd (py_strip t) = last ?w" using w by (simp add: py_strip_def hd_rev)
  also have "\<dots> = last (rev ?u)"
  proof -
    have "rev ?u = takeWhile is_space (rev ?u) @ ?w" by simp
    then show ?thesis using w by (metis last_appendR)
  qed
  also have "\<dots> = hd ?u" using u by (simp add: last_rev)
  finally show ?thesis using hu last by simp
qed

section \<open>Upstream failures\<close>

lemma failing_keys:
  "get_secret failing_env ''OPENAI_API_KEY'' = Inr ''sk-openai''"
  "get_secret failing_env ''GROQ_API_KEY'' = Inr ''gsk-groq''"
  "get_secret failing_env ''CLIPDROP_API_KEY'' = Inr ''cd-key''"
  by (simp_all add: get_secret_def lookup_environ_def failing_env_def example_env_def)

lemma failing_services:
  "stt failing_env r = \<lparr>status_code = 503, resp_text = ''unavailable'',
                         resp_content = [], resp_json = None\<rparr>"
  "clipdrop failing_env q = \<lparr>status_code = 503, resp_text = ''unavailable'',
                              resp_content = [], resp_json = None\<rparr>"
  "chat failing_env n c = \<lparr>status_code = 503, resp_text = ''unavailable'',
                             resp_content = [], resp_json = None\<rparr>"
  by (simp_all add: failing_env_def example_env_def)

lemma refusing_keys:
  "get_secret refusing_env ''GROQ_API_KEY'' = Inr ''gsk-groq''"
  by (simp add: get_secret_def lookup_environ_def refusing_env_def example_env_def)

lemma refusing_chat:
  "chat refusing_env n c = \<lparr>status_code = 401, resp_text = ''invalid api key'',
                              resp_content = [], resp_json = None\<rparr>"
  by (simp add: refusing_env_def)

lemma recovering_chat:
  "chat recovering_env 0 c = \<lparr>status_code = 503, resp_text = ''unavailable'',
                               resp_content = [], resp_json = None\<rparr>"
  "chat recovering_env (Suc n) c = \<lparr>status_code = 401, resp_text = ''invalid api key'',
                                     resp_content = [], resp_json = None\<rparr>"
  by (simp_all add: recovering_env_def)

text \<open>
  Claim C2 as stated fails for the completion stages, which do retry: when the completion
  service answers 503, the emotion classifier has sent the same request three times before
  the error of the last response is raised.
\<close>

theorem completion_stage_retries:
  "detect_emotion_func failing_env (StrV ''Je volais'') example_state
     = (Inl (APIStatusError 503 ''unavailable''),
        example_state\<lparr>calls :=
          [Chat (emotion_request ''gsk-groq'' (emotion_instruction @ ''Je volais'')),
           Chat (emotion_request ''gsk-groq'' (emotion_instruction @ ''Je volais'')),
           Chat (emotion_request ''gsk-groq'' (emotion_instruction @ ''Je volais''))]\<rparr>)"
proof -
  have r: "should_retry 503" "\<not> is_success 503"
    by (simp_all add: should_retry_def is_success_def)
  have "completions_create failing_env
          (emotion_request ''gsk-groq'' (emotion_instruction @ ''Je volais'')) example_state
      = (Inl (APIStatusError 503 ''unavailable''),
         record_call (Chat (emotion_request ''gsk-groq'' (emotion_instruction @ ''Je volais'')))
          (record_call (Chat (emotion_request ''gsk-groq'' (emotion_instruction @ ''Je volais'')))
            (record_call (Chat (emotion_request ''gsk-groq'' (emotion_instruction @ ''Je volais'')))
              example_state)))"
    using completions_create_retries_exhausted [of failing_env
        "emotion_request ''gsk-groq'' (emotion_instruction @ ''Je volais'')" example_state]
    by (simp add: failing_services r)
  then show ?thesis
    unfolding detect_emotion_run [OF failing_keys(2)]
    by (simp add: record_call_def example_state_def)
qed

text \<open>
  Claim C2, as the code has it. The transcriber and the image synthesizer send one request
  and, for every response whose status code is not 200, raise \<^verbatim>\<open>HTTPException\<close> with
  exactly that status code and that response text. The emotion classifier and the prompt
  generator check no status code: they call the SDK client once, and the status error that
  the client raises leaves the stage unchanged. The client raises it with the status code
  and the body of the last response it got: the first one when its status is not one the
  client retries, and otherwise the second or third one, after it has sent the same
  request again.
\<close>

theorem upstream_failure_propagation:
  "(get_secret e ''OPENAI_API_KEY'' = Inr okey
      \<and> resp = stt e (stt_request_of okey file (file_data file)) \<and> status_code resp \<noteq> 200
    \<longrightarrow> fst (transcribe_audio_func e file s)
          = Inl (HTTPException (status_code resp) (resp_text resp))
        \<and> calls (snd (transcribe_audio_func e file s))
          = calls s @ [STT (stt_request_of okey file (file_data file))])
   \<and> (get_secret e ''CLIPDROP_API_KEY'' = Inr ikey \<and> json_serializable prompt
      \<and> iresp = clipdrop e (image_request_of ikey prompt) \<and> status_code iresp \<noteq> 200
    \<longrightarrow> generate_image_func e prompt s
          = (Inl (HTTPException (status_code iresp) (resp_text iresp)),
             record_call (Image (image_request_of ikey prompt)) s))
   \<and> (get_secret e ''GROQ_API_KEY'' = Inr gkey
      \<and> completions_create e (emotion_request gkey (emotion_instruction @ t)) s = (Inl err, after)
    \<longrightarrow> detect_emotion_func e (StrV t) s = (Inl err, after))
   \<and> (get_secret e ''GROQ_API_KEY'' = Inr gkey
      \<and> completions_create e (prompt_request gkey (prompt_instruction @ t)) s = (Inl err, after)
    \<longrightarrow> generate_image_prompt_func e (StrV t) s = (Inl err, after))
   \<and> (first = chat e 0 req \<and> \<not> is_success (status_code first) \<and> \<not> should_retry (status_code first)
    \<longrightarrow> completions_create e req s
          = (Inl (APIStatusError (status_code first) (resp_text first)), record_call (Chat req) s))
   \<and> (should_retry (status_code (chat e 0 req)) \<and> second = chat e 1 req
      \<and> \<not> is_success (status_code second) \<and> \<not> should_retry (status_code second)
    \<longrightarrow> completions_create e req s
          = (Inl (APIStatusError (status_code second) (resp_text second)),
             record_call (Chat req) (record_call (Chat req) s)))
   \<and> (should_retry (status_code (chat e 0 req)) \<and> should_retry (status_code (chat e 1 req))
      \<and> third = chat e 2 req \<and> \<not> is_success (status_code third)
    \<longrightarrow> completions_create e req s
          = (Inl (APIStatusError (status_code third) (resp_text third)),
             record_call (Chat req) (record_call (Chat req) (record_call (Chat req) s))))"
proof (intro conjI impI)
  assume a: "get_secret e ''OPENAI_API_KEY'' = Inr okey
      \<and> resp = stt e (stt_request_of okey file (file_data file)) \<and> status_code resp \<noteq> 200"
  then show "fst (transcribe_audio_func e file s)
          = Inl (HTTPException (status_code resp) (resp_text resp))"
    using transcribe_fst_non200 [of e okey "file" s] by auto
  from a show "calls (snd (transcribe_audio_func e file s))
          = calls s @ [STT (stt_request_of okey file (file_data file))]"
    using transcribe_calls [of e okey "file" s] by auto
next
  assume "get_secret e ''CLIPDROP_API_KEY'' = Inr ikey \<and> json_serializable prompt
      \<and> iresp = clipdrop e (image_request_of ikey prompt) \<and> status_code iresp \<noteq> 200"
  then show "generate_image_func e prompt s
          = (Inl (HTTPException (status_code iresp) (resp_text iresp)),
             record_call (Image (image_request_of ikey prompt)) s)"
    using generate_image_run [of e ikey prompt s] by auto
next
  assume "get_secret e ''GROQ_API_KEY'' = Inr gkey
      \<and> completions_create e (emotion_request gkey (emotion_instruction @ t)) s = (Inl err, after)"
  then show "detect_emotion_func e (StrV t) s = (Inl err, after)"
    using detect_emotion_run [of e gkey t s] by simp
next
  assume "get_secret e ''GROQ_API_KEY'' = Inr gkey
      \<and> completions_create e (prompt_request gkey (prompt_instruction @ t)) s = (Inl err, after)"
  then show "generate_image_prompt_func e (StrV t) s = (Inl err, after)"
    using generate_image_prompt_run [of e gkey t s] by simp
next
  assume "first = chat e 0 req \<and> \<not> is_success (status_code first) \<and> \<not> should_retry (status_code first)"
  then show "completions_create e req s
          = (Inl (APIStatusError (status_code first) (resp_text first)), record_call (Chat req) s)"
    using completions_create_no_retry [of e req s] by auto
next
  assume "should_retry (status_code (chat e 0 req)) \<and> second = chat e 1 req
      \<and> \<not> is_success (status_code second) \<and> \<not> should_retry (status_code second)"
  then show "completions_create e req s
          = (Inl (APIStatusError (status_code second) (resp_text second)),
             record_call (Chat req) (record_call (Chat req) s))"
    using completions_create_one_retry [of e req s] by auto
next
  assume "should_retry (status_code (chat e 0 req)) \<and> should_retry (status_code (chat e 1 req))
      \<and> third = chat e 2 req \<and> \<not> is_success (status_code third)"
  then show "completions_create e req s
          = (Inl (APIStatusError (status_code third) (resp_text third)),
             record_call (Chat req) (record_call (Chat req) (record_call (Chat req) s)))"
    using completions_create_retries_exhausted [of e req s] by auto
qed

theorem upstream_failure_propagation_witness:
  "fst (transcribe_audio_func failing_env example_file example_state)
     = Inl (HTTPException 503 ''unavailable'')
   \<and> calls (snd (transcribe_audio_func failing_env example_file example_state))
     = calls example_state @ [STT (stt_request_of ''sk-openai'' example_file (file_data example_file))]
   \<and> generate_image_func failing_env (StrV ''une ville'') example_state
     = (Inl (HTTPException 503 ''unavailable''),
        record_call (Image (image_request_of ''cd-key'' (StrV ''une ville''))) example_state)
   \<and> completions_create refusing_env (emotion_request ''gsk-groq'' (emotion_instruction @ ''Je volais''))
        example_state
     = (Inl (APIStatusError 401 ''invalid api key''),
        record_call (Chat (emotion_request ''gsk-groq'' (emotion_instruction @ ''Je volais'')))
          example_state)
   \<and> detect_emotion_func refusing_env (StrV ''Je volais'') example_state
     = (Inl (APIStatusError 401 ''invalid api key''),
        record_call (Chat (emotion_request ''gsk-groq'' (emotion_instruction @ ''Je volais'')))
          example_state)
   \<and> completions_create failing_env (prompt_request ''gsk-groq'' (prompt_instruction @ ''Je volais''))
        example_state
     = (Inl (APIStatusError 503 ''unavailable''),
        record_call (Chat (prompt_request ''gsk-groq'' (prompt_instruction @ ''Je volais'')))
         (record_call (Chat (prompt_request ''gsk-groq'' (prompt_instruction @ ''Je volais'')))
           (record_call (Chat (prompt_request ''gsk-groq'' (prompt_instruction @ ''Je volais'')))
             example_state)))
   \<and> generate_image_prompt_func failing_env (StrV ''Je volais'') example_state
     = (Inl (APIStatusError 503 ''unavailable''),
        record_call (Chat (prompt_request ''gsk-groq'' (prompt_instruction @ ''Je volais'')))
         (record_call (Chat (prompt_request ''gsk-groq'' (prompt_instruction @ ''Je volais'')))
           (record_call (Chat (prompt_request ''gsk-groq'' (prompt_instruction @ ''Je volais'')))
             example_state)))
   \<and> completions_create recovering_env
        (emotion_request ''gsk-groq'' (emotion_instruction @ ''Je volais'')) example_state
     = (Inl (APIStatusError 401 ''invalid api key''),
        record_call (Chat (emotion_request ''gsk-groq'' (emotion_instruction @ ''Je volais'')))
         (record_call (Chat (emotion_request ''gsk-groq'' (emotion_instruction @ ''Je volais'')))
           example_state))"
proof -
  let ?er = "emotion_request ''gsk-groq'' (emotion_instruction @ ''Je volais'')"
  let ?pr = "prompt_request ''gsk-groq'' (prompt_instruction @ ''Je volais'')"
  have c: "should_retry 503" "\<not> is_success 503" "\<not> should_retry 401" "\<not> is_success 401"
    by (simp_all add: should_retry_def is_success_def)
  note a = upstream_failure_propagation [where e = failing_env and okey = "''sk-openai''"
      and resp = "stt failing_env (stt_request_of ''sk-openai'' example_file (file_data example_file))"
      and ?file = example_file and ikey = "''cd-key''" and prompt = "StrV ''une ville''"
      and iresp = "clipdrop failing_env (image_request_of ''cd-key'' (StrV ''une ville''))"
      and gkey = "''gsk-groq''" and t = "''Je volais''" and s = example_state
      and req = ?pr and first = "chat failing_env 0 ?pr" and second = "chat failing_env 1 ?pr"
      and third = "chat failing_env 2 ?pr"
      and err = "APIStatusError 503 ''unavailable''"
      and after = "record_call (Chat ?pr) (record_call (Chat ?pr) (record_call (Chat ?pr) example_state))"]
  note b = upstream_failure_propagation [where e = refusing_env and okey = "''sk-openai''"
      and resp = "stt refusing_env (stt_request_of ''sk-openai'' example_file (file_data example_file))"
      and ?file = example_file and ikey = "''cd-key''" and prompt = "StrV ''une ville''"
      and iresp = "clipdrop refusing_env (image_request_of ''cd-key'' (StrV ''une ville''))"
      and gkey = "''gsk-groq''" and t = "''Je volais''" and s = example_state
      and req = ?er and first = "chat refusing_env 0 ?er" and second = "chat refusing_env 1 ?er"
      and third = "chat refusing_env 2 ?er"
      and err = "APIStatusError 401 ''invalid api key''"
      and after = "record_call (Chat ?er) example_state"]
  note d = upstream_failure_propagation [where e = recovering_env and okey = "''sk-openai''"
      and resp = "stt recovering_env (stt_request_of ''sk-openai'' example_file (file_data example_file))"
      and ?file = example_file and ikey = "''cd-key''" and prompt = "StrV ''une ville''"
      and iresp = "clipdrop recovering_env (image_request_of ''cd-key'' (StrV ''une ville''))"
      and gkey = "''gsk-groq''" and t = "''Je volais''" and s = example_state
      and req = ?er and first = "chat recovering_env 0 ?er" and second = "chat recovering_env (Suc 0) ?er"
      and third = "chat recovering_env (Suc (Suc 0)) ?er"
      and err = "APIStatusError 401 ''invalid api key''"
      and after = "record_call (Chat ?er) (record_call (Chat ?er) example_state)"]
  have b5: "completions_create refusing_env ?er example_state
     = (Inl (APIStatusError 401 ''invalid api key''), record_call (Chat ?er) example_state)"
    using b by (simp add: refusing_chat c)
  have a7: "completions_create failing_env ?pr example_state
     = (Inl (APIStatusError 503 ''unavailable''),
        record_call (Chat ?pr) (record_call (Chat ?pr) (record_call (Chat ?pr) example_state)))"
    using a by (simp add: failing_services c)
  have d6: "completions_create recovering_env ?er example_state
     = (Inl (APIStatusError 401 ''invalid api key''),
        record_call (Chat ?er) (record_call (Chat ?er) example_state))"
    using d by (simp add: recovering_chat c)
  from a b a7 b5 d6 show ?thesis
    by (simp add: failing_keys failing_services refusing_keys)
qed

section \<open>The transcriber\<close>

lemma no_openai_key: "get_secret no_openai_key_env ''OPENAI_API_KEY''
    = Inl (RuntimeError (missing_key_message ''OPENAI_API_KEY''))"
  by (simp add: get_secret_def lookup_environ_def no_openai_key_env_def example_env_def)

lemma get_secret_error_readable:
  "get_secret cfg name = Inl err \<Longrightarrow> \<not> use_streamlit_secrets cfg \<or> secrets cfg \<noteq> None \<Longrightarrow>
   err = RuntimeError (missing_key_message name)"
  by (auto simp: get_secret_def split: if_splits option.splits dest: lookup_environ_error)

text \<open>
  Claim C4 as stated fails when the speech-to-text key is not configured: the transcriber
  then neither returns a string nor raises the upstream error.
\<close>

theorem transcribe_missing_key_counterexample:
  "fst (transcribe_audio_func no_openai_key_env example_file example_state)
     = Inl (RuntimeError (missing_key_message ''OPENAI_API_KEY''))
   \<and> \<not> string_or_upstream_error
         (fst (transcribe_audio_func no_openai_key_env example_file example_state))"
  by (simp add: transcribe_no_key [OF no_openai_key])

text \<open>
  Claim C4, as the code has it. When the key does not resolve, the transcriber raises the
  error of the resolver before anything else happens; that error is the missing-key error
  whenever the secret store is not consulted or can be read. With the key, a 200 response
  whose JSON object has no \<^verbatim>\<open>text\<close> field gives the empty string; and whenever the
  service answers, every 200 response carrying a JSON object whose \<^verbatim>\<open>text\<close> field is
  absent or a string, the transcriber returns a string or raises the upstream error.
\<close>

theorem transcribe_outcomes:
  "(get_secret e ''OPENAI_API_KEY'' = Inl err
    \<longrightarrow> transcribe_audio_func e file s = (Inl err, s))
   \<and> (get_secret e ''OPENAI_API_KEY'' = Inl err
      \<and> (\<not> use_streamlit_secrets e \<or> secrets e \<noteq> None)
    \<longrightarrow> err = RuntimeError (missing_key_message ''OPENAI_API_KEY''))
   \<and> (get_secret e ''OPENAI_API_KEY'' = Inr key
      \<and> resp = stt e (stt_request_of key file (file_data file))
      \<and> status_code resp = 200 \<and> resp_json resp = Some (DictV kvs)
      \<and> map_of kvs ''text'' = None
    \<longrightarrow> fst (transcribe_audio_func e file s) = Inr (DictV [(''transcription'', StrV [])]))
   \<and> (get_secret e ''OPENAI_API_KEY'' = Inr key
      \<and> resp = stt e (stt_request_of key file (file_data file))
      \<and> (status_code resp = 200
           \<longrightarrow> (\<exists>fields. resp_json resp = Some (DictV fields)
                  \<and> (map_of fields ''text'' = None
                       \<or> (\<exists>t. map_of fields ''text'' = Some (StrV t)))))
    \<longrightarrow> string_or_upstream_error (fst (transcribe_audio_func e file s)))"
proof (intro conjI impI)
  assume a: "get_secret e ''OPENAI_API_KEY'' = Inl err"
  then show "transcribe_audio_func e file s = (Inl err, s)"
    by (rule transcribe_no_key)
next
  assume "get_secret e ''OPENAI_API_KEY'' = Inl err
      \<and> (\<not> use_streamlit_secrets e \<or> secrets e \<noteq> None)"
  then show "err = RuntimeError (missing_key_message ''OPENAI_API_KEY'')"
    using get_secret_error_readable [of e "''OPENAI_API_KEY''" err] by blast
next
  assume "get_secret e ''OPENAI_API_KEY'' = Inr key
      \<and> resp = stt e (stt_request_of key file (file_data file))
      \<and> status_code resp = 200 \<and> resp_json resp = Some (DictV kvs)
      \<and> map_of kvs ''text'' = None"
  then show "fst (transcribe_audio_func e file s) = Inr (DictV [(''transcription'', StrV [])])"
    using transcribe_fst_200 [of e key "file" kvs s] by (auto simp: dict_get_def)
next
  assume a: "get_secret e ''OPENAI_API_KEY'' = Inr key
      \<and> resp = stt e (stt_request_of key file (file_data file))
      \<and> (status_code resp = 200
           \<longrightarrow> (\<exists>fields. resp_json resp = Some (DictV fields)
                  \<and> (map_of fields ''text'' = None
                       \<or> (\<exists>t. map_of fields ''text'' = Some (StrV t)))))"
  show "string_or_upstream_error (fst (transcribe_audio_func e file s))"
  proof (cases "status_code resp = 200")
    case False
    with a show ?thesis
      using transcribe_fst_non200 [of e key "file" s] by auto
  next
    case True
    with a obtain fields where f: "resp_json resp = Some (DictV fields)"
      and t: "map_of fields ''text'' = None \<or> (\<exists>t. map_of fields ''text'' = Some (StrV t))"
      by blast
    from a True f have "fst (transcribe_audio_func e file s)
        = Inr (DictV [(''transcription'', dict_get fields ''text'' (StrV []))])"
      using transcribe_fst_200 [of e key "file" fields s] by auto
    with t show ?thesis by (auto simp: dict_get_def)
  qed
qed

lemma silent_keys:
  "get_secret silent_env ''OPENAI_API_KEY'' = Inr ''sk-openai''"
  "get_secret silent_env ''GROQ_API_KEY'' = Inr ''gsk-groq''"
  "get_secret silent_env ''CLIPDROP_API_KEY'' = Inr ''cd-key''"
  by (simp_all add: get_secret_def lookup_environ_def silent_env_def example_env_def)

lemma silent_stt:
  "stt silent_env r = \<lparr>status_code = 200, resp_text = ''{}'', resp_content = [],
                        resp_json = Some (DictV [])\<rparr>"
  by (simp add: silent_env_def example_env_def)

theorem transcribe_outcomes_witness:
  "transcribe_audio_func no_openai_key_env example_file example_state
     = (Inl (RuntimeError (missing_key_message ''OPENAI_API_KEY'')), example_state)
   \<and> fst (transcribe_audio_func silent_env example_file example_state)
     = Inr (DictV [(''transcription'', StrV [])])
   \<and> string_or_upstream_error (fst (transcribe_audio_func silent_env example_file example_state))
   \<and> string_or_upstream_error (fst (transcribe_audio_func failing_env example_file example_state))"
  using
    transcribe_outcomes [where e = no_openai_key_env and ?file = example_file
      and s = example_state and err = "RuntimeError (missing_key_message ''OPENAI_API_KEY'')"
      and key = "''''" and kvs = "[]"
      and resp = "\<lparr>status_code = 200, resp_text = [], resp_content = [], resp_json = None\<rparr>"]
    transcribe_outcomes [where e = silent_env and ?file = example_file
      and s = example_state and err = "TypeError"
      and key = "''sk-openai''" and kvs = "[]"
      and resp = "stt silent_env (stt_request_of ''sk-openai'' example_file (file_data example_file))"]
    transcribe_outcomes [where e = failing_env and ?file = example_file
      and s = example_state and err = "TypeError"
      and key = "''sk-openai''" and kvs = "[]"
      and resp = "stt failing_env (stt_request_of ''sk-openai'' example_file (file_data example_file))"]
  by (simp add: no_openai_key silent_keys silent_stt failing_keys failing_services)

section \<open>The image synthesizer\<close>

text \<open>
  Claim C5. On a 200 response the image synthesizer returns the text
  \<^verbatim>\<open>data:image/png;base64,\<close> followed by the base64 encoding of the response bytes,
  and decoding the payload of that data URI gives the response bytes back.
\<close>

theorem image_data_uri_round_trip:
  "get_secret e ''CLIPDROP_API_KEY'' = Inr key \<Longrightarrow> json_serializable prompt \<Longrightarrow>
   resp = clipdrop e (image_request_of key prompt) \<Longrightarrow> status_code resp = 200 \<Longrightarrow>
   fst (generate_image_func e prompt s)
     = Inr (DictV [(''image'', StrV (''data:image/png;base64,'' @ b64encode (resp_content resp)))])
   \<and> b64decode (data_uri_payload (''data:image/png;base64,'' @ b64encode (resp_content resp)))
     = Some (resp_content resp)"
proof -
  assume a: "get_secret e ''CLIPDROP_API_KEY'' = Inr key" "json_serializable prompt"
    "resp = clipdrop e (image_request_of key prompt)" "status_code resp = 200"
  have p: "''data:image/png;base64,'' = data_uri_prefix"
    by (simp add: data_uri_prefix_def)
  from a have "fst (generate_image_func e prompt s)
     = Inr (DictV [(''image'', StrV (data_uri_prefix @ b64encode (resp_content resp)))])"
    using generate_image_run [of e key prompt s] by auto
  then show ?thesis
    unfolding p by (simp only: data_uri_payload_prefix b64decode_b64encode simp_thms)
qed

lemma example_clipdrop:
  "clipdrop example_env q = \<lparr>status_code = 200, resp_text = [],
      resp_content = [0x89, 0x50, 0x4E, 0x47], resp_json = None\<rparr>"
  by (simp add: example_env_def)

lemma example_png_base64: "b64encode [0x89, 0x50, 0x4E, 0x47] = ''iVBORw==''"
  by code_simp

theorem image_data_uri_round_trip_witness:
  "fst (generate_image_func example_env (StrV ''une ville en feu'') example_state)
     = Inr (DictV [(''image'', StrV ''data:image/png;base64,iVBORw=='')])
   \<and> b64decode (data_uri_payload ''data:image/png;base64,iVBORw=='')
     = Some [0x89, 0x50, 0x4E, 0x47]"
proof -
  have k: "get_secret example_env ''CLIPDROP_API_KEY'' = Inr ''cd-key''"
    by (rule example_keys(3))
  have j: "json_serializable (StrV ''une ville en feu'')"
    by simp
  have st: "status_code (clipdrop example_env
      (image_request_of ''cd-key'' (StrV ''une ville en feu''))) = 200"
    by (simp add: example_clipdrop)
  have c: "resp_content (clipdrop example_env
      (image_request_of ''cd-key'' (StrV ''une ville en feu''))) = [0x89, 0x50, 0x4E, 0x47]"
    by (simp add: example_clipdrop)
  from image_data_uri_round_trip [OF k j refl st, of example_state] show ?thesis
    by (simp only: c example_png_base64 append.simps)
qed

section \<open>The completion stages\<close>

lemma example_chat:
  "chat example_env n (emotion_request k q) = completion_response ('' Cauchemar'' @ [CHR 0x0A])"
  "chat example_env n (prompt_request k q) = completion_response ''  une ville en feu  ''"
  by (simp_all add: example_env_def prompt_request_def emotion_request_def)

lemma completion_response_ok:
  "is_success (status_code (completion_response content))"
  "resp_json (completion_response content)
     = Some (DictV [(''choices'',
               ListV [DictV [(''message'', DictV [(''content'', StrV content)])]])])"
  by (simp_all add: completion_response_def is_success_def)

lemma completion_response_content:
  "message_content (DictV [(''choices'',
      ListV [DictV [(''message'', DictV [(''content'', StrV content)])]])]) = Inr content"
  by (simp add: message_content_def)

lemma example_label: "py_lower (py_strip ('' Cauchemar'' @ [CHR 0x0A])) = ''cauchemar''"
  by code_simp

lemma example_descr: "py_strip ''  une ville en feu  '' = ''une ville en feu''"
  by code_simp

text \<open>
  Claim C6 on the code. The completion service answers the classifier's request, sent with
  temperature 0 and a ceiling of 10 tokens, with a completion whose text would normalise to
  \<open>cauchemar\<close>; the stage does not return it: awaiting what the synchronous client
  returned raises \<^verbatim>\<open>TypeError\<close>, and the line that strips and lower-cases the text is
  never reached.
\<close>

theorem detect_emotion_raises_on_completion:
  "detect_emotion_func example_env (StrV ''Je volais'') example_state
     = (Inl TypeError,
        record_call (Chat (emotion_request ''gsk-groq'' (emotion_instruction @ ''Je volais'')))
          example_state)
   \<and> temperature (emotion_request ''gsk-groq'' (emotion_instruction @ ''Je volais'')) = 0
   \<and> max_tokens (emotion_request ''gsk-groq'' (emotion_instruction @ ''Je volais'')) = 10
   \<and> resp_json (chat example_env 0
        (emotion_request ''gsk-groq'' (emotion_instruction @ ''Je volais'')))
     = Some (DictV [(''choices'', ListV [DictV [(''message'',
          DictV [(''content'', StrV ('' Cauchemar'' @ [CHR 0x0A]))])]])])
   \<and> message_content (DictV [(''choices'', ListV [DictV [(''message'',
          DictV [(''content'', StrV ('' Cauchemar'' @ [CHR 0x0A]))])]])])
     = Inr ('' Cauchemar'' @ [CHR 0x0A])
   \<and> py_lower (py_strip ('' Cauchemar'' @ [CHR 0x0A])) = ''cauchemar''"
proof -
  let ?req = "emotion_request ''gsk-groq'' (emotion_instruction @ ''Je volais'')"
  have "completions_create example_env ?req example_state
      = (Inr (DictV [(''choices'', ListV [DictV [(''message'',
            DictV [(''content'', StrV ('' Cauchemar'' @ [CHR 0x0A]))])]])]),
         record_call (Chat ?req) example_state)"
    by (rule completions_create_success)
      (simp_all only: example_chat completion_response_ok)
  then have "detect_emotion_func example_env (StrV ''Je volais'') example_state
     = (Inl TypeError, record_call (Chat ?req) example_state)"
    unfolding detect_emotion_run [OF example_keys(2)] by simp
  moreover have "temperature ?req = 0 \<and> max_tokens ?req = 10"
    by (simp add: emotion_request_def)
  moreover have "resp_json (chat example_env 0 ?req)
     = Some (DictV [(''choices'', ListV [DictV [(''message'',
          DictV [(''content'', StrV ('' Cauchemar'' @ [CHR 0x0A]))])]])])"
    by (simp only: example_chat completion_response_ok)
  ultimately show ?thesis
    using completion_response_content [of "'' Cauchemar'' @ [CHR 0x0A]"] example_label
    by blast
qed

text \<open>
  Claim C7 on the code. The request of the prompt generator has the shape of the
  classifier's (same key, same model, same message roles) with a strictly higher
  temperature and a strictly larger token ceiling, and the completion service answers it
  with a text that would trim to \<open>une ville en feu\<close>; the stage does not return it:
  awaiting what the synchronous client returned raises \<^verbatim>\<open>TypeError\<close>, and the line that
  strips the text is never reached.
\<close>

theorem generate_image_prompt_raises_on_completion:
  "generate_image_prompt_func example_env (StrV ''Je volais'') example_state
     = (Inl TypeError,
        record_call (Chat (prompt_request ''gsk-groq'' (prompt_instruction @ ''Je volais'')))
          example_state)
   \<and> chat_api_key (prompt_request ''gsk-groq'' (prompt_instruction @ ''Je volais''))
     = chat_api_key (emotion_request ''gsk-groq'' (emotion_instruction @ ''Je volais''))
   \<and> chat_model (prompt_request ''gsk-groq'' (prompt_instruction @ ''Je volais''))
     = chat_model (emotion_request ''gsk-groq'' (emotion_instruction @ ''Je volais''))
   \<and> map fst (chat_messages (prompt_request ''gsk-groq'' (prompt_instruction @ ''Je volais'')))
     = map fst (chat_messages (emotion_request ''gsk-groq'' (emotion_instruction @ ''Je volais'')))
   \<and> temperature (emotion_request ''gsk-groq'' (emotion_instruction @ ''Je volais''))
     < temperature (prompt_request ''gsk-groq'' (prompt_instruction @ ''Je volais''))
   \<and> max_tokens (emotion_request ''gsk-groq'' (emotion_instruction @ ''Je volais''))
     < max_tokens (prompt_request ''gsk-groq'' (prompt_instruction @ ''Je volais''))
   \<and> resp_json (chat example_env 0
        (prompt_request ''gsk-groq'' (prompt_instruction @ ''Je volais'')))
     = Some (DictV [(''choices'', ListV [DictV [(''message'',
          DictV [(''content'', StrV ''  une ville en feu  '')])]])])
   \<and> message_content (DictV [(''choices'', ListV [DictV [(''message'',
          DictV [(''content'', StrV ''  une ville en feu  '')])]])])
     = Inr ''  une ville en feu  ''
   \<and> py_strip ''  une ville en feu  '' = ''une ville en feu''"
proof -
  let ?req = "prompt_request ''gsk-groq'' (prompt_instruction @ ''Je volais'')"
  let ?ereq = "emotion_request ''gsk-groq'' (emotion_instruction @ ''Je volais'')"
  have "completions_create example_env ?req example_state
      = (Inr (DictV [(''choices'', ListV [DictV [(''message'',
            DictV [(''content'', StrV ''  une ville en feu  '')])]])]),
         record_call (Chat ?req) example_state)"
    by (rule completions_create_success)
      (simp_all only: example_chat completion_response_ok)
  then have "generate_image_prompt_func example_env (StrV ''Je volais'') example_state
     = (Inl TypeError, record_call (Chat ?req) example_state)"
    unfolding generate_image_prompt_run [OF example_keys(2)] by simp
  moreover have "chat_api_key ?req = chat_api_key ?ereq \<and> chat_model ?req = chat_model ?ereq
     \<and> map fst (chat_messages ?req) = map fst (chat_messages ?ereq)
     \<and> temperature ?ereq < temperature ?req \<and> max_tokens ?ereq < max_tokens ?req"
    by (simp add: emotion_request_def prompt_request_def)
  moreover have "resp_json (chat example_env 0 ?req)
     = Some (DictV [(''choices'', ListV [DictV [(''message'',
          DictV [(''content'', StrV ''  une ville en feu  '')])]])])"
    by (simp only: example_chat completion_response_ok)
  ultimately show ?thesis
    using completion_response_content [of "''  une ville en feu  ''"] example_descr
    by blast
qed

section \<open>The endpoint /dream-to-image\<close>

lemma calls_record_call: "calls (record_call c s) = calls s @ [c]"
  by (simp add: record_call_def)

lemma record_call_frame:
  "fs (record_call c s) = fs s" "handles (record_call c s) = handles s"
  "ui (record_call c s) = ui s" "tmp_count (record_call c s) = tmp_count s"
  by (simp_all add: record_call_def)

lemma display_frame:
  "fs (display ev s) = fs s" "handles (display ev s) = handles s"
  "calls (display ev s) = calls s" "tmp_count (display ev s) = tmp_count s"
  by (simp_all add: display_def)

lemma generate_image_state:
  "generate_image_func e prompt s = (r, s') \<Longrightarrow>
   s' = s \<or> (\<exists>q. s' = record_call (Image q) s)"
  by (auto simp: generate_image_func_def Let_def split: sum.splits if_splits)

lemma dream_to_image_fs:
  "fs (snd (dream_to_image e file s)) = fs (snd (transcribe_audio_func e file s))"
  by (auto simp: dream_to_image_def record_call_frame split: prod.splits sum.splits
      dest!: detect_emotion_frame generate_image_prompt_frame generate_image_state)

text \<open>
  The classifier is called with whatever the transcriber returned, and the request ends in
  the classifier: no request of \<^verbatim>\<open>dream_to_image\<close> returns a value.
\<close>

lemma dream_to_image_never_returns:
  "\<exists>err. fst (dream_to_image e file s) = Inl err"
proof -
  obtain r1 s1 where t1: "transcribe_audio_func e file s = (r1, s1)"
    by (cases "transcribe_audio_func e file s") simp
  show ?thesis
  proof (cases r1)
    case (Inl err)
    with t1 show ?thesis by (simp add: dream_to_image_def)
  next
    case (Inr transcription)
    show ?thesis
    proof (cases "subscript transcription ''transcription''")
      case (Inl err)
      with t1 Inr show ?thesis by (simp add: dream_to_image_def)
    next
      case (Inr tx)
      obtain r2 s2 where d: "detect_emotion_func e tx s1 = (r2, s2)"
        by (cases "detect_emotion_func e tx s1") simp
      from detect_emotion_never_returns [of e tx s1] d obtain err where "r2 = Inl err"
        by auto
      with t1 \<open>r1 = Inr transcription\<close> Inr d show ?thesis
        by (simp add: dream_to_image_def)
    qed
  qed
qed

lemma dream_to_image_classifier:
  assumes k1: "get_secret e ''OPENAI_API_KEY'' = Inr okey"
    and ok: "status_code (stt e (stt_request_of okey file (file_data file))) = 200"
    and js: "resp_json (stt e (stt_request_of okey file (file_data file))) = Some (DictV kvs)"
    and tx: "dict_get kvs ''text'' (StrV []) = StrV t"
    and k2: "get_secret e ''GROQ_API_KEY'' = Inr gkey"
    and c1: "is_success (status_code (chat e 0 (emotion_request gkey (emotion_instruction @ t))))"
    and c2: "resp_json (chat e 0 (emotion_request gkey (emotion_instruction @ t))) = Some created"
  shows "fst (dream_to_image e file s) = Inl TypeError"
    and "calls (snd (dream_to_image e file s))
           = calls s @ [STT (stt_request_of okey file (file_data file)),
                        Chat (emotion_request gkey (emotion_instruction @ t))]"
proof -
  obtain r1 s1 where t1: "transcribe_audio_func e file s = (r1, s1)"
    by (cases "transcribe_audio_func e file s") simp
  have r1: "r1 = Inr (DictV [(''transcription'', StrV t)])"
    using transcribe_fst_200 [OF k1 ok js, of s] t1 tx by simp
  have cs1: "calls s1 = calls s @ [STT (stt_request_of okey file (file_data file))]"
    using transcribe_calls [OF k1, of "file" s] t1 by simp
  have d: "detect_emotion_func e (StrV t) s1
      = (Inl TypeError, record_call (Chat (emotion_request gkey (emotion_instruction @ t))) s1)"
    unfolding detect_emotion_run [OF k2] completions_create_success [OF c1 c2] by simp
  show "fst (dream_to_image e file s) = Inl TypeError"
    by (simp add: dream_to_image_def t1 r1 d)
  show "calls (snd (dream_to_image e file s))
           = calls s @ [STT (stt_request_of okey file (file_data file)),
                        Chat (emotion_request gkey (emotion_instruction @ t))]"
    by (simp add: dream_to_image_def t1 r1 d calls_record_call cs1)
qed

lemma no_clipdrop_keys:
  "get_secret no_clipdrop_key_env ''OPENAI_API_KEY'' = Inr ''sk-openai''"
  "get_secret no_clipdrop_key_env ''GROQ_API_KEY'' = Inr ''gsk-groq''"
  "get_secret no_clipdrop_key_env ''CLIPDROP_API_KEY''
     = Inl (RuntimeError (missing_key_message ''CLIPDROP_API_KEY''))"
  by (simp_all add: get_secret_def lookup_environ_def no_clipdrop_key_env_def example_env_def)

lemma example_stt:
  "stt example_env r = \<lparr>status_code = 200, resp_text = [], resp_content = [],
                         resp_json = Some (DictV [(''text'', StrV ''Je volais'')])\<rparr>"
  by (simp add: example_env_def)

lemma no_clipdrop_services:
  "stt no_clipdrop_key_env = stt example_env"
  "chat no_clipdrop_key_env = chat example_env"
  by (simp_all add: no_clipdrop_key_env_def)

lemma silent_services:
  "chat silent_env = chat example_env"
  "clipdrop silent_env = clipdrop example_env"
  by (simp_all add: silent_env_def)

text \<open>
  Claim C8 on the code. Only the image key is missing, the transcription succeeds and the
  completion service answers the classifier, yet the request does not end with the
  missing-key error of the image stage: it ends with the \<^verbatim>\<open>TypeError\<close> of the classifier,
  after the transcription request and the classifier's request; the prompt generator and
  the image synthesizer, which would have looked its key up, are not reached.
\<close>

theorem dream_to_image_stops_before_image_key:
  "get_secret no_clipdrop_key_env ''CLIPDROP_API_KEY''
     = Inl (RuntimeError (missing_key_message ''CLIPDROP_API_KEY''))
   \<and> fst (dream_to_image no_clipdrop_key_env example_file example_state) = Inl TypeError
   \<and> calls (snd (dream_to_image no_clipdrop_key_env example_file example_state))
     = [STT (stt_request_of ''sk-openai'' example_file (file_data example_file)),
        Chat (emotion_request ''gsk-groq'' (emotion_instruction @ ''Je volais''))]"
proof -
  have ok: "status_code (stt no_clipdrop_key_env
      (stt_request_of ''sk-openai'' example_file (file_data example_file))) = 200"
    by (simp add: no_clipdrop_services example_stt)
  have js: "resp_json (stt no_clipdrop_key_env
      (stt_request_of ''sk-openai'' example_file (file_data example_file)))
      = Some (DictV [(''text'', StrV ''Je volais'')])"
    by (simp add: no_clipdrop_services example_stt)
  have tx: "dict_get [(''text'', StrV ''Je volais'')] ''text'' (StrV []) = StrV ''Je volais''"
    by (simp add: dict_get_def)
  have c1: "is_success (status_code (chat no_clipdrop_key_env 0
      (emotion_request ''gsk-groq'' (emotion_instruction @ ''Je volais''))))"
    by (simp only: no_clipdrop_services example_chat completion_response_ok)
  have c2: "resp_json (chat no_clipdrop_key_env 0
      (emotion_request ''gsk-groq'' (emotion_instruction @ ''Je volais'')))
      = Some (DictV [(''choices'', ListV [DictV [(''message'',
          DictV [(''content'', StrV ('' Cauchemar'' @ [CHR 0x0A]))])]])])"
    by (simp only: no_clipdrop_services example_chat completion_response_ok)
  note d = dream_to_image_classifier [OF no_clipdrop_keys(1) ok js tx no_clipdrop_keys(2) c1 c2,
      of example_state]
  have "calls example_state = []" by (simp add: example_state_def)
  with d no_clipdrop_keys(3) show ?thesis by simp
qed

text \<open>
  Claim C1 on \<^verbatim>\<open>dream_to_image\<close>: the endpoint checks nothing between the stages. With
  an empty transcription it calls the emotion classifier, which sends its request to the
  completion service.
\<close>

theorem dream_to_image_classifies_empty_transcript:
  "fst (transcribe_audio_func silent_env example_file example_state)
     = Inr (DictV [(''transcription'', StrV [])])
   \<and> filter downstream (calls (snd (dream_to_image silent_env example_file example_state)))
     = [Chat (emotion_request ''gsk-groq'' emotion_instruction)]
   \<and> fst (dream_to_image silent_env example_file example_state) = Inl TypeError"
proof -
  have ok: "status_code (stt silent_env
      (stt_request_of ''sk-openai'' example_file (file_data example_file))) = 200"
    by (simp add: silent_stt)
  have js: "resp_json (stt silent_env
      (stt_request_of ''sk-openai'' example_file (file_data example_file))) = Some (DictV [])"
    by (simp add: silent_stt)
  have tx: "dict_get [] ''text'' (StrV []) = StrV []"
    by (simp add: dict_get_def)
  have c1: "is_success (status_code (chat silent_env 0
      (emotion_request ''gsk-groq'' (emotion_instruction @ []))))"
    by (simp only: silent_services example_chat completion_response_ok)
  have c2: "resp_json (chat silent_env 0
      (emotion_request ''gsk-groq'' (emotion_instruction @ [])))
      = Some (DictV [(''choices'', ListV [DictV [(''message'',
          DictV [(''content'', StrV ('' Cauchemar'' @ [CHR 0x0A]))])]])])"
    by (simp only: silent_services example_chat completion_response_ok)
  note d = dream_to_image_classifier [OF silent_keys(1) ok js tx silent_keys(2) c1 c2,
      of example_state]
  have t: "fst (transcribe_audio_func silent_env example_file example_state)
     = Inr (DictV [(''transcription'', StrV [])])"
    using transcribe_fst_200 [OF silent_keys(1) ok js, of example_state] tx by simp
  have "calls example_state = []" by (simp add: example_state_def)
  with d t show ?thesis by simp
qed

section \<open>The interactive pipeline\<close>

text \<open>
  The wrappers of \<^verbatim>\<open>app.py\<close> pass a \<^verbatim>\<open>Payload\<close> object where the stage appends its
  argument to a string, so the classifier raises before it sends anything, and
  \<^verbatim>\<open>except Exception\<close> displays the error: no run of the page reaches the completion
  service or the image service.
\<close>

lemma transcribe_fs_kept:
  "remove_fails e p \<Longrightarrow> fs s p \<noteq> None \<Longrightarrow> fs (snd (transcribe_audio_func e file s)) p \<noteq> None"
proof (cases "get_secret e ''OPENAI_API_KEY''")
  case (Inl err)
  assume "fs s p \<noteq> None"
  with Inl show ?thesis by (simp add: transcribe_no_key)
next
  case (Inr key)
  assume "remove_fails e p" "fs s p \<noteq> None"
  with transcribe_fs [OF Inr, of "file" s] show ?thesis by auto
qed

lemma transcribe_downstream:
  "filter downstream (calls (snd (transcribe_audio_func e file s))) = filter downstream (calls s)"
proof (cases "get_secret e ''OPENAI_API_KEY''")
  case (Inl err)
  then show ?thesis by (simp add: transcribe_no_key)
next
  case (Inr key)
  with transcribe_calls [OF Inr, of "file" s] show ?thesis by simp
qed

lemma detect_emotion_payload:
  "\<exists>err. detect_emotion_func e (PayloadV v) s = (Inl err, s)"
  by (cases "get_secret e ''GROQ_API_KEY''") (simp_all add: detect_emotion_func_def)

lemma pipeline_stages_raises:
  "\<exists>err. pipeline_stages e transcription s = (Inl err, s)"
  using detect_emotion_payload [of e transcription s]
  by (auto simp: pipeline_stages_def detect_emotion_sync_def)

lemma transcribe_audio_sync_frame:
  "handles (snd (transcribe_audio_sync e p s)) = handles s"
  "ui (snd (transcribe_audio_sync e p s)) = ui s"
  "filter downstream (calls (snd (transcribe_audio_sync e p s))) = filter downstream (calls s)"
  using transcribe_handles [of e _ "s\<lparr>handles := p # handles s\<rparr>"]
    transcribe_ui [of e _ "s\<lparr>handles := p # handles s\<rparr>"]
    transcribe_downstream [of e _ "s\<lparr>handles := p # handles s\<rparr>"]
  by (simp_all add: transcribe_audio_sync_def DummyUploadFile_def close_file_def Let_def
      case_prod_beta split: option.splits)

lemma transcribe_audio_sync_fs_kept:
  "remove_fails e q \<Longrightarrow> fs s q \<noteq> None \<Longrightarrow> fs (snd (transcribe_audio_sync e p s)) q \<noteq> None"
  using transcribe_fs_kept [of e q "s\<lparr>handles := p # handles s\<rparr>"]
  by (simp add: transcribe_audio_sync_def DummyUploadFile_def close_file_def Let_def
      case_prod_beta split: option.splits)

lemma pipeline_try_frame:
  "handles (snd (pipeline_try e p s)) = handles s"
  "filter downstream (calls (snd (pipeline_try e p s))) = filter downstream (calls s)"
proof -
  obtain r s1 where t: "transcribe_audio_sync e p s = (r, s1)"
    by (cases "transcribe_audio_sync e p s") simp
  from transcribe_audio_sync_frame [of e p s] t
  have h: "handles s1 = handles s"
    and c: "filter downstream (calls s1) = filter downstream (calls s)"
    by simp_all
  show "handles (snd (pipeline_try e p s)) = handles s"
  proof (cases r)
    case (Inl err)
    with t h show ?thesis by (simp add: pipeline_try_def)
  next
    case (Inr resp)
    obtain err where "pipeline_stages e (get_if_dict resp ''transcription'' (StrV []) (StrV []))
        (display (Show_transcription (get_if_dict resp ''transcription'' (StrV []) (StrV []))) s1)
        = (Inl err, display (Show_transcription
            (get_if_dict resp ''transcription'' (StrV []) (StrV []))) s1)"
      using pipeline_stages_raises by blast
    with Inr t h show ?thesis
      by (simp add: pipeline_try_def Let_def display_frame)
  qed
  show "filter downstream (calls (snd (pipeline_try e p s))) = filter downstream (calls s)"
  proof (cases r)
    case (Inl err)
    with t c show ?thesis by (simp add: pipeline_try_def)
  next
    case (Inr resp)
    obtain err where "pipeline_stages e (get_if_dict resp ''transcription'' (StrV []) (StrV []))
        (display (Show_transcription (get_if_dict resp ''transcription'' (StrV []) (StrV []))) s1)
        = (Inl err, display (Show_transcription
            (get_if_dict resp ''transcription'' (StrV []) (StrV []))) s1)"
      using pipeline_stages_raises by blast
    with Inr t c show ?thesis
      by (simp add: pipeline_try_def Let_def display_frame)
  qed
qed

lemma pipeline_try_fs_kept:
  "remove_fails e q \<Longrightarrow> fs s q \<noteq> None \<Longrightarrow> fs (snd (pipeline_try e p s)) q \<noteq> None"
proof -
  assume a: "remove_fails e q" "fs s q \<noteq> None"
  obtain r s1 where t: "transcribe_audio_sync e p s = (r, s1)"
    by (cases "transcribe_audio_sync e p s") simp
  from transcribe_audio_sync_fs_kept [OF a, of p] t have k: "fs s1 q \<noteq> None"
    by simp
  show ?thesis
  proof (cases r)
    case (Inl err)
    with t k show ?thesis by (simp add: pipeline_try_def)
  next
    case (Inr resp)
    obtain err where "pipeline_stages e (get_if_dict resp ''transcription'' (StrV []) (StrV []))
        (display (Show_transcription (get_if_dict resp ''transcription'' (StrV []) (StrV []))) s1)
        = (Inl err, display (Show_transcription
            (get_if_dict resp ''transcription'' (StrV []) (StrV []))) s1)"
      using pipeline_stages_raises by blast
    with Inr t k show ?thesis
      by (simp add: pipeline_try_def Let_def display_frame)
  qed
qed

lemma pipeline_path:
  "fst (pipeline e u s) = next_tmp_path e s (''.'' @ last_part CHR ''.'' (upload_name u))"
  by (simp add: pipeline_def NamedTemporaryFile_def next_tmp_path_def Let_def case_prod_beta
      split: sum.splits)

lemma pipeline_finally:
  assumes sfx: "sfx = ''.'' @ last_part CHR ''.'' (upload_name u)"
  shows "\<exists>s3. fs s3 = fs (snd (pipeline_try e (next_tmp_path e s sfx)
                 (snd (NamedTemporaryFile e sfx (upload_data u) s))))
     \<and> handles s3 = handles (snd (pipeline_try e (next_tmp_path e s sfx)
                 (snd (NamedTemporaryFile e sfx (upload_data u) s))))
     \<and> calls s3 = calls (snd (pipeline_try e (next_tmp_path e s sfx)
                 (snd (NamedTemporaryFile e sfx (upload_data u) s))))
     \<and> snd (pipeline e u s)
       = (if fs s3 (next_tmp_path e s sfx) \<noteq> None
          then (if remove_fails e (next_tmp_path e s sfx)
                then display (Warn_cannot_remove OSError) s3
                else s3\<lparr>fs := (fs s3)(next_tmp_path e s sfx := None)\<rparr>)
          else s3)"
proof -
  let ?p = "next_tmp_path e s sfx"
  let ?s1 = "snd (NamedTemporaryFile e sfx (upload_data u) s)"
  have p: "fst (NamedTemporaryFile e sfx (upload_data u) s) = ?p"
    by (simp add: NamedTemporaryFile_def next_tmp_path_def Let_def)
  obtain r s2 where t: "pipeline_try e ?p ?s1 = (r, s2)"
    by (cases "pipeline_try e ?p ?s1") simp
  let ?s3 = "case r of Inl err \<Rightarrow> display (Show_error err) s2 | Inr x \<Rightarrow> s2"
  have f: "fs ?s3 = fs s2 \<and> handles ?s3 = handles s2 \<and> calls ?s3 = calls s2"
    by (cases r) (simp_all add: display_frame)
  have "pipeline e u s
      = (if fs ?s3 ?p \<noteq> None then
           (case os_remove e ?p ?s3 of
              (Inl err, s4) \<Rightarrow> (?p, display (Warn_cannot_remove err) s4)
            | (Inr x, s4) \<Rightarrow> (?p, s4))
         else (?p, ?s3))"
    unfolding pipeline_def Let_def case_prod_beta sfx [symmetric] p t fst_conv snd_conv
    by (simp cong: sum.case_cong if_cong)
  then have "snd (pipeline e u s)
       = (if fs ?s3 ?p \<noteq> None
          then (if remove_fails e ?p then display (Warn_cannot_remove OSError) ?s3
                else ?s3\<lparr>fs := (fs ?s3)(?p := None)\<rparr>)
          else ?s3)"
    by (simp add: os_remove_def)
  with f t show ?thesis by (intro exI [of _ ?s3]) simp
qed

lemma pipeline_removes:
  "\<not> remove_fails e (fst (pipeline e u s)) \<Longrightarrow>
   fs (snd (pipeline e u s)) (fst (pipeline e u s)) = None"
proof -
  define sfx where "sfx = ''.'' @ last_part CHR ''.'' (upload_name u)"
  have pp: "fst (pipeline e u s) = next_tmp_path e s sfx"
    unfolding sfx_def by (rule pipeline_path)
  assume "\<not> remove_fails e (fst (pipeline e u s))"
  then have l: "\<not> remove_fails e (next_tmp_path e s sfx)"
    unfolding pp .
  from pipeline_finally [OF sfx_def, of e s] obtain s3 where
    r: "snd (pipeline e u s)
       = (if fs s3 (next_tmp_path e s sfx) \<noteq> None
          then (if remove_fails e (next_tmp_path e s sfx)
                then display (Warn_cannot_remove OSError) s3
                else s3\<lparr>fs := (fs s3)(next_tmp_path e s sfx := None)\<rparr>)
          else s3)"
    by blast
  from r l have "fs (snd (pipeline e u s)) (next_tmp_path e s sfx) = None"
    by auto
  then show ?thesis unfolding pp .
qed

lemma pipeline_handles: "handles (snd (pipeline e u s)) = handles s"
proof -
  define sfx where "sfx = ''.'' @ last_part CHR ''.'' (upload_name u)"
  from pipeline_finally [OF sfx_def, of e s] obtain s3 where
    h: "handles s3 = handles (snd (pipeline_try e (next_tmp_path e s sfx)
          (snd (NamedTemporaryFile e sfx (upload_data u) s))))"
    and r: "snd (pipeline e u s)
       = (if fs s3 (next_tmp_path e s sfx) \<noteq> None
          then (if remove_fails e (next_tmp_path e s sfx)
                then display (Warn_cannot_remove OSError) s3
                else s3\<lparr>fs := (fs s3)(next_tmp_path e s sfx := None)\<rparr>)
          else s3)"
    by blast
  from r have "handles (snd (pipeline e u s)) = handles s3"
    by (simp add: display_frame)
  with h show ?thesis
    by (simp add: pipeline_try_frame NamedTemporaryFile_def Let_def)
qed

lemma pipeline_no_downstream_call:
  "filter downstream (calls (snd (pipeline e u s))) = filter downstream (calls s)"
proof -
  define sfx where "sfx = ''.'' @ last_part CHR ''.'' (upload_name u)"
  from pipeline_finally [OF sfx_def, of e s] obtain s3 where
    h: "calls s3 = calls (snd (pipeline_try e (next_tmp_path e s sfx)
          (snd (NamedTemporaryFile e sfx (upload_data u) s))))"
    and r: "snd (pipeline e u s)
       = (if fs s3 (next_tmp_path e s sfx) \<noteq> None
          then (if remove_fails e (next_tmp_path e s sfx)
                then display (Warn_cannot_remove OSError) s3
                else s3\<lparr>fs := (fs s3)(next_tmp_path e s sfx := None)\<rparr>)
          else s3)"
    by blast
  from r have "calls (snd (pipeline e u s)) = calls s3"
    by (simp add: display_frame)
  with h show ?thesis
    by (simp add: pipeline_try_frame NamedTemporaryFile_def Let_def)
qed

lemma pipeline_keeps_locked_file:
  "remove_fails e (fst (pipeline e u s)) \<Longrightarrow>
   fs (snd (pipeline e u s)) (fst (pipeline e u s)) \<noteq> None
   \<and> Warn_cannot_remove OSError \<in> set (ui (snd (pipeline e u s)))"
proof -
  define sfx where "sfx = ''.'' @ last_part CHR ''.'' (upload_name u)"
  let ?p = "next_tmp_path e s sfx"
  let ?s1 = "snd (NamedTemporaryFile e sfx (upload_data u) s)"
  have pp: "fst (pipeline e u s) = next_tmp_path e s sfx"
    unfolding sfx_def by (rule pipeline_path)
  assume "remove_fails e (fst (pipeline e u s))"
  then have l: "remove_fails e ?p" unfolding pp .
  have "fs ?s1 ?p \<noteq> None"
    by (simp add: NamedTemporaryFile_def next_tmp_path_def Let_def)
  from pipeline_try_fs_kept [OF l this, of ?p]
  have k: "fs (snd (pipeline_try e ?p ?s1)) ?p \<noteq> None" .
  from pipeline_finally [OF sfx_def, of e s] obtain s3 where
    f: "fs s3 = fs (snd (pipeline_try e ?p ?s1))"
    and r: "snd (pipeline e u s)
       = (if fs s3 ?p \<noteq> None
          then (if remove_fails e ?p then display (Warn_cannot_remove OSError) s3
                else s3\<lparr>fs := (fs s3)(?p := None)\<rparr>)
          else s3)"
    by blast
  from f k have k3: "fs s3 ?p \<noteq> None" by simp
  from r k3 l have "snd (pipeline e u s) = display (Warn_cannot_remove OSError) s3"
    by simp
  with k3 have "fs (snd (pipeline e u s)) ?p \<noteq> None
   \<and> Warn_cannot_remove OSError \<in> set (ui (snd (pipeline e u s)))"
    by (simp add: display_def)
  then show ?thesis unfolding pp .
qed

text \<open>
  The guard of the page: with an empty transcription the \<^verbatim>\<open>try\<close> block ends after
  the warning, and none of the steps 2 to 4 is run.
\<close>

lemma pipeline_try_short_circuit:
  "transcribe_audio_sync e p s = (Inr resp, s1) \<Longrightarrow>
   \<not> truthy (get_if_dict resp ''transcription'' (StrV []) (StrV [])) \<Longrightarrow>
   pipeline_try e p s = (Inr (), display Warn_no_transcription s1)"
  by (simp add: pipeline_try_def Let_def)

lemma dream_to_image_tmp_file:
  "get_secret e ''OPENAI_API_KEY'' = Inr key \<Longrightarrow>
   fs (snd (dream_to_image e file s))
     = (if remove_fails e (next_tmp_path e s ''.mp3'')
        then (fs s)(next_tmp_path e s ''.mp3'' \<mapsto> file_data file)
        else (fs s)(next_tmp_path e s ''.mp3'' := None))"
  unfolding dream_to_image_fs next_tmp_path_def by (rule transcribe_fs)

lemma dream_to_image_no_tmp_file:
  "get_secret e ''OPENAI_API_KEY'' = Inl err \<Longrightarrow> fs (snd (dream_to_image e file s)) = fs s"
  unfolding dream_to_image_fs by (simp add: transcribe_no_key)

section \<open>Temporary files\<close>

text \<open>
  Claim C9, as the code has it. On every way out of the page's pipeline the removal of
  the uploaded temporary file is attempted: the file is gone when \<^verbatim>\<open>os.remove\<close>
  succeeds, and the handle opened on it is closed; when \<^verbatim>\<open>os.remove\<close> fails the file
  stays and a warning is displayed. The endpoint's own temporary copy, made once the key is
  resolved, is removed on every way out of the request when \<^verbatim>\<open>os.remove\<close> succeeds
  and stays, silently, when it fails; without the key no temporary file is made.
\<close>

theorem temporary_file_removal:
  "fst (pipeline e u s) = next_tmp_path e s (''.'' @ last_part CHR ''.'' (upload_name u))
   \<and> (\<not> remove_fails e (fst (pipeline e u s))
        \<longrightarrow> fs (snd (pipeline e u s)) (fst (pipeline e u s)) = None)
   \<and> (remove_fails e (fst (pipeline e u s))
        \<longrightarrow> fs (snd (pipeline e u s)) (fst (pipeline e u s)) \<noteq> None
            \<and> Warn_cannot_remove OSError \<in> set (ui (snd (pipeline e u s))))
   \<and> handles (snd (pipeline e u s)) = handles s
   \<and> (get_secret e ''OPENAI_API_KEY'' = Inr key \<and> \<not> remove_fails e (next_tmp_path e s ''.mp3'')
        \<longrightarrow> fs (snd (dream_to_image e file s)) (next_tmp_path e s ''.mp3'') = None)
   \<and> (get_secret e ''OPENAI_API_KEY'' = Inr key \<and> remove_fails e (next_tmp_path e s ''.mp3'')
        \<longrightarrow> fs (snd (dream_to_image e file s)) (next_tmp_path e s ''.mp3'')
            = Some (file_data file))
   \<and> (get_secret e ''OPENAI_API_KEY'' = Inl err
        \<longrightarrow> fs (snd (dream_to_image e file s)) = fs s)"
proof (intro conjI impI)
  show "fst (pipeline e u s) = next_tmp_path e s (''.'' @ last_part CHR ''.'' (upload_name u))"
    by (rule pipeline_path)
next
  assume "\<not> remove_fails e (fst (pipeline e u s))"
  then show "fs (snd (pipeline e u s)) (fst (pipeline e u s)) = None"
    by (rule pipeline_removes)
next
  assume l: "remove_fails e (fst (pipeline e u s))"
  from pipeline_keeps_locked_file [OF l]
  show "fs (snd (pipeline e u s)) (fst (pipeline e u s)) \<noteq> None"
    and "Warn_cannot_remove OSError \<in> set (ui (snd (pipeline e u s)))"
    by simp_all
next
  show "handles (snd (pipeline e u s)) = handles s"
    by (rule pipeline_handles)
next
  assume "get_secret e ''OPENAI_API_KEY'' = Inr key \<and> \<not> remove_fails e (next_tmp_path e s ''.mp3'')"
  then show "fs (snd (dream_to_image e file s)) (next_tmp_path e s ''.mp3'') = None"
    using dream_to_image_tmp_file [of e key "file" s] by simp
next
  assume "get_secret e ''OPENAI_API_KEY'' = Inr key \<and> remove_fails e (next_tmp_path e s ''.mp3'')"
  then show "fs (snd (dream_to_image e file s)) (next_tmp_path e s ''.mp3'') = Some (file_data file)"
    using dream_to_image_tmp_file [of e key "file" s] by simp
next
  assume "get_secret e ''OPENAI_API_KEY'' = Inl err"
  then show "fs (snd (dream_to_image e file s)) = fs s"
    by (rule dream_to_image_no_tmp_file)
qed

lemma locked_keys:
  "get_secret locked_env ''OPENAI_API_KEY'' = Inr ''sk-openai''"
  by (simp add: get_secret_def lookup_environ_def locked_env_def example_env_def)

lemma example_paths:
  "next_tmp_path example_env example_state sfx = ''/tmp/tmpx'' @ sfx"
  "next_tmp_path locked_env example_state sfx = ''/tmp/tmpx'' @ sfx"
  "next_tmp_path no_openai_key_env example_state sfx = ''/tmp/tmpx'' @ sfx"
  by (simp_all add: next_tmp_path_def example_env_def locked_env_def no_openai_key_env_def
      example_state_def)

lemma example_upload_suffix: "''.'' @ last_part CHR ''.'' (upload_name example_upload) = ''.mp3''"
  by (simp add: last_part_def example_upload_def)

lemma example_remove:
  "remove_fails example_env p = False"
  "remove_fails locked_env p = True"
  by (simp_all add: example_env_def locked_env_def)

theorem temporary_file_removal_witness:
  "fst (pipeline example_env example_upload example_state) = ''/tmp/tmpx.mp3''
   \<and> fs (snd (pipeline example_env example_upload example_state)) ''/tmp/tmpx.mp3'' = None
   \<and> fs (snd (pipeline locked_env example_upload example_state)) ''/tmp/tmpx.mp3'' \<noteq> None
   \<and> Warn_cannot_remove OSError \<in> set (ui (snd (pipeline locked_env example_upload example_state)))
   \<and> handles (snd (pipeline example_env example_upload example_state)) = []
   \<and> fs (snd (dream_to_image example_env example_file example_state)) ''/tmp/tmpx.mp3'' = None
   \<and> fs (snd (dream_to_image locked_env example_file example_state)) ''/tmp/tmpx.mp3''
     = Some [1, 2, 3]
   \<and> fs (snd (dream_to_image no_openai_key_env example_file example_state)) = Map.empty"
proof -
  note a = temporary_file_removal [where e = example_env and u = example_upload
      and s = example_state and key = "''sk-openai''" and ?file = example_file
      and err = TypeError, unfolded example_paths example_upload_suffix]
  note b = temporary_file_removal [where e = locked_env and u = example_upload
      and s = example_state and key = "''sk-openai''" and ?file = example_file
      and err = TypeError, unfolded example_paths example_upload_suffix]
  note c = temporary_file_removal [where e = no_openai_key_env and u = example_upload
      and s = example_state and key = "''sk-openai''" and ?file = example_file
      and err = "RuntimeError (missing_key_message ''OPENAI_API_KEY'')"]
  have h: "handles example_state = []" "fs example_state = Map.empty"
    "file_data example_file = [1, 2, 3]"
    by (simp_all add: example_state_def example_file_def)
  from a b c show ?thesis
    by (auto simp: example_remove example_keys locked_keys no_openai_key h)
qed

text \<open>
  Claim C9 as stated fails when the temporary file cannot be removed: both the page and
  the endpoint then finish with the file still on disk.
\<close>

theorem temporary_file_lingers_when_locked:
  "fst (pipeline locked_env example_upload example_state) = ''/tmp/tmpx.mp3''
   \<and> fs (snd (pipeline locked_env example_upload example_state)) ''/tmp/tmpx.mp3'' \<noteq> None
   \<and> fs (snd (dream_to_image locked_env example_file example_state)) ''/tmp/tmpx.mp3''
     = Some [1, 2, 3]"
proof -
  have p: "fst (pipeline locked_env example_upload example_state) = ''/tmp/tmpx.mp3''"
    using pipeline_path [of locked_env example_upload example_state]
    unfolding example_paths example_upload_suffix by simp
  have l: "remove_fails locked_env (fst (pipeline locked_env example_upload example_state))"
    by (simp add: example_remove)
  from pipeline_keeps_locked_file [OF l]
  have "fs (snd (pipeline locked_env example_upload example_state)) ''/tmp/tmpx.mp3'' \<noteq> None"
    unfolding p by simp
  moreover have "fs (snd (dream_to_image locked_env example_file example_state)) ''/tmp/tmpx.mp3''
     = Some [1, 2, 3]"
    using dream_to_image_tmp_file [OF locked_keys, of example_file example_state]
    unfolding example_paths by (simp add: example_remove example_file_def)
  ultimately show ?thesis using p by simp
qed

end
